theory Spec2Isabelle
  imports Complex_Main "HOL-Library.Word"
begin

unbundle bit_operations_syntax

section \<open>The sphinx oracle (pwdsphinx/oracle.py): data model\<close>

text \<open>
  A shallow embedding of the server worker of \<^verbatim>\<open>src/pwdsphinx/oracle.py\<close>.
  Python \<^verbatim>\<open>bytes\<close> are lists of 8-bit words, Python integers are \<open>int\<close>, and the value of
  \<^verbatim>\<open>datetime.now().timestamp()\<close> is a \<open>real\<close> (at the magnitude of a Unix time the double
  subtractions and comparisons of the source are exact).
\<close>

type_synonym byte = "8 word"
type_synonym bytes = "byte list"

text \<open>
  How a worker ends other than by returning: \<open>Failed\<close> is \<^verbatim>\<open>fail(s)\<close> run to its
  \<^verbatim>\<open>os._exit(0)\<close> (marker sent, socket shut down and closed); the others are Python
  exceptions that no handler of the worker catches, so they leave through \<^verbatim>\<open>main\<close>'s
  \<^verbatim>\<open>except: print("fail"); raise\<close>, which writes to stdout and not to the socket.
  \<open>Hang\<close> is \<^verbatim>\<open>read_pkt\<close> spinning on a stream that has ended.
\<close>

datatype error =
    Failed
  | ValueError
  | FileNotFoundError
  | FileExistsError
  | StructError
  | IndexError
  | KeyError
  | TypeError
  | ZeroDivisionError
  | Hang

text \<open>
  The data directory: whether it exists, the regular files directly in it (the MAC key
  \<^verbatim>\<open><datadir>/key\<close>), and its sub-directories, each a map from file name to contents.
\<close>

record filesys =
  datadir_exists :: bool
  top_files :: "string \<rightharpoonup> bytes"
  dirs :: "string \<rightharpoonup> (string \<rightharpoonup> bytes)"

text \<open>
  What one worker sees: the disk, the connection (\<open>inp\<close>: the chunks the peer's writes
  deliver, one \<^verbatim>\<open>recv\<close> takes from the first; \<open>out\<close>: what the worker sent, one entry
  per \<^verbatim>\<open>send\<close>), the random tape \<^verbatim>\<open>pysodium.randombytes\<close> reads from, and the clock.
\<close>

record world =
  disk :: filesys
  inp :: "bytes list"
  out :: "bytes list"
  rand_tape :: "nat \<Rightarrow> byte"
  rand_pos :: nat
  clock :: real

text \<open>
  What the source imports and this repository's \<^verbatim>\<open>src/\<close> does not hold, taken as
  parameters: the constants of \<^verbatim>\<open>pwdsphinx.consts\<close> (\<^verbatim>\<open>RULE_SIZE\<close> and the one-byte
  opcodes), the \<^verbatim>\<open>[server]\<close> configuration values, and the primitives of pysodium,
  pyoprf and equihash. \<open>oprf_evaluate\<close> is \<open>None\<close> where \<^verbatim>\<open>pyoprf.evaluate\<close> raises;
  \<open>sign_verify_detached sig msg pk\<close> is \<open>False\<close> where
  \<^verbatim>\<open>pysodium.crypto_sign_verify_detached\<close> raises \<^verbatim>\<open>ValueError\<close>;
  \<open>generichash key data\<close> is the 32-byte keyed \<^verbatim>\<open>crypto_generichash\<close> of the
  concatenated updates. \<open>dkg_exchange n t index aux chunks tape pos\<close> stands for the body
  of \<^verbatim>\<open>dkg\<close> (lines 268-309), which consists of pyoprf, noisexk and pysodium calls over
  the socket and touches no file under the data directory: from the chunks that arrive
  and the random tape it yields the share or an error, the chunks it left unread, what
  it sent and the new position on the tape.
\<close>

record env =
  RULE_SIZE :: nat
  CREATE :: byte
  CREATE_DKG :: byte
  GET :: byte
  CHANGE :: byte
  CHANGE_DKG :: byte
  DELETE :: byte
  COMMIT :: byte
  UNDO :: byte
  READ :: byte
  CHALLENGE_CREATE :: byte
  CHALLENGE_VERIFY :: byte
  rl_decay :: int
  rl_threshold :: int
  rl_gracetime :: int
  oprf_evaluate :: "bytes \<Rightarrow> bytes \<Rightarrow> bytes option"
  sign_verify_detached :: "bytes \<Rightarrow> bytes \<Rightarrow> bytes \<Rightarrow> bool"
  generichash :: "bytes \<Rightarrow> bytes \<Rightarrow> bytes"
  equihash_solsize :: "nat \<Rightarrow> nat \<Rightarrow> nat"
  equihash_verify :: "nat \<Rightarrow> nat \<Rightarrow> bytes \<Rightarrow> bytes \<Rightarrow> bool"
  dkg_exchange :: "nat \<Rightarrow> nat \<Rightarrow> nat \<Rightarrow> bytes \<Rightarrow> bytes list \<Rightarrow> (nat \<Rightarrow> byte) \<Rightarrow> nat
                     \<Rightarrow> (error + bytes) \<times> bytes list \<times> bytes list \<times> nat"

section \<open>Effects: state passing with errors\<close>

type_synonym 'a io = "world \<Rightarrow> (error + 'a) \<times> world"

definition ret :: "'a \<Rightarrow> 'a io" where
  "ret x = (\<lambda>w. (Inr x, w))"

definition raise :: "error \<Rightarrow> 'a io" where
  "raise e = (\<lambda>w. (Inl e, w))"

definition io_bind :: "'a io \<Rightarrow> ('a \<Rightarrow> 'b io) \<Rightarrow> 'b io" where
  "io_bind m f = (\<lambda>w. case m w of (Inl e, w') \<Rightarrow> (Inl e, w') | (Inr x, w') \<Rightarrow> f x w')"

definition io_when :: "bool \<Rightarrow> unit io \<Rightarrow> unit io" where
  "io_when c m = (if c then m else ret ())"

definition lift :: "error + 'a \<Rightarrow> 'a io" where
  "lift r = (case r of Inl e \<Rightarrow> raise e | Inr x \<Rightarrow> ret x)"

subsection \<open>The socket\<close>

text \<open>\<^verbatim>\<open>s.recv(n)\<close> / \<^verbatim>\<open>conn.read(n)\<close>: at most \<open>n\<close> bytes of what has arrived, empty at the end
  of the stream.\<close>

definition recv :: "nat \<Rightarrow> bytes io" where
  "recv n = (\<lambda>w. case inp w of
       [] \<Rightarrow> (Inr [], w)
     | c # cs \<Rightarrow> (Inr (take n c), w\<lparr>inp := (if drop n c = [] then cs else drop n c # cs)\<rparr>))"

definition send :: "bytes \<Rightarrow> unit io" where
  "send b = (\<lambda>w. (Inr (), w\<lparr>out := out w @ [b]\<rparr>))"

text \<open>The loop of \<^verbatim>\<open>read_pkt\<close> (lines 103-105): \<open>acc\<close> is what \<^verbatim>\<open>res\<close> holds. At the end of
  the stream \<^verbatim>\<open>recv\<close> keeps returning nothing and the loop never ends.\<close>

fun read_pkt_loop :: "nat \<Rightarrow> bytes \<Rightarrow> bytes list \<Rightarrow> (bytes \<times> bytes list) option" where
  "read_pkt_loop sz acc [] = (if length acc < sz then None else Some (acc, []))"
| "read_pkt_loop sz acc (c # cs) =
     (if length acc < sz then
        (if drop (sz - length acc) c = []
         then read_pkt_loop sz (acc @ c) cs
         else Some (acc @ take (sz - length acc) c, drop (sz - length acc) c # cs))
      else Some (acc, c # cs))"

definition read_pkt :: "nat \<Rightarrow> bytes io" where
  "read_pkt sz = (\<lambda>w. case read_pkt_loop sz [] (inp w) of
       None \<Rightarrow> (Inl Hang, w\<lparr>inp := []\<rparr>)
     | Some (b, rest) \<Rightarrow> (Inr b, w\<lparr>inp := rest\<rparr>))"

definition fail_marker :: bytes where
  "fail_marker = [0, 4, 102, 97, 105, 108]"

definition fail :: "'a io" where
  "fail = (\<lambda>w. (Inl Failed, w\<lparr>out := out w @ [fail_marker]\<rparr>))"

definition or_fail :: "'a option \<Rightarrow> 'a io" where
  "or_fail v = (case v of None \<Rightarrow> fail | Some x \<Rightarrow> ret x)"

definition randombytes :: "nat \<Rightarrow> bytes io" where
  "randombytes n = (\<lambda>w. (Inr (map (rand_tape w) [rand_pos w ..< rand_pos w + n]),
                          w\<lparr>rand_pos := rand_pos w + n\<rparr>))"

definition now_timestamp :: "real io" where
  "now_timestamp = (\<lambda>w. (Inr (clock w), w))"

subsection \<open>Bytes\<close>

definition pop :: "bytes \<Rightarrow> nat \<Rightarrow> bytes \<times> bytes" where
  "pop obj cnt = (take cnt obj, drop cnt obj)"

text \<open>\<^verbatim>\<open>pop(obj, 1, lambda x: x[0])\<close>: the first byte as a number; \<^verbatim>\<open>x[0]\<close> of nothing raises.\<close>

definition pop_byte :: "bytes \<Rightarrow> error + (nat \<times> bytes)" where
  "pop_byte obj = (case take 1 obj of [] \<Rightarrow> Inl IndexError | b # _ \<Rightarrow> Inr (unat b, drop 1 obj))"

definition hexdigit :: "nat \<Rightarrow> char" where
  "hexdigit n = ''0123456789abcdef'' ! n"

definition hexlify :: "bytes \<Rightarrow> string" where
  "hexlify bs = concat (map (\<lambda>b. [hexdigit (unat b div 16), hexdigit (unat b mod 16)]) bs)"

fun le_bytes :: "nat \<Rightarrow> nat \<Rightarrow> bytes" where
  "le_bytes 0 x = []"
| "le_bytes (Suc n) x = of_nat (x mod 256) # le_bytes n (x div 256)"

fun le_value :: "bytes \<Rightarrow> nat" where
  "le_value [] = 0"
| "le_value (b # bs) = unat b + 256 * le_value bs"

text \<open>\<^verbatim>\<open>struct.pack\<close> and \<^verbatim>\<open>struct.unpack\<close> for the formats the source uses: \<^verbatim>\<open>"B"\<close>,
  \<^verbatim>\<open>"I"\<close> and \<^verbatim>\<open>"Q"\<close> in native order (little-endian on the hosts the server runs on)
  and the network-order \<^verbatim>\<open>"!H"\<close>. A value out of range or a buffer of the wrong length
  raises \<^verbatim>\<open>struct.error\<close>.\<close>

definition pack_uint :: "nat \<Rightarrow> int \<Rightarrow> error + bytes" where
  "pack_uint width x =
     (if 0 \<le> x \<and> x < 2 ^ (8 * width) then Inr (le_bytes width (nat x)) else Inl StructError)"

definition unpack_uint :: "nat \<Rightarrow> bytes \<Rightarrow> error + int" where
  "unpack_uint width b =
     (if length b = width then Inr (int (le_value b)) else Inl StructError)"

definition unpack_H_be :: "bytes \<Rightarrow> error + nat" where
  "unpack_H_be b = (if length b = 2 then Inr (le_value (rev b)) else Inl StructError)"

text \<open>Python's \<^verbatim>\<open>int(x)\<close> of a float truncates towards zero.\<close>

definition py_int :: "real \<Rightarrow> int" where
  "py_int x = (if 0 \<le> x then \<lfloor>x\<rfloor> else \<lceil>x\<rceil>)"

subsection \<open>The record store\<close>

definition path_exists :: "string \<Rightarrow> bool io" where
  "path_exists path = (\<lambda>w. (Inr (if path = [] then datadir_exists (disk w)
                                    else dirs (disk w) path \<noteq> None), w))"

definition mkdir :: "string \<Rightarrow> unit io" where
  "mkdir path = (\<lambda>w.
     if path = [] then
       (if datadir_exists (disk w) then (Inl FileExistsError, w)
        else (Inr (), w\<lparr>disk := (disk w)\<lparr>datadir_exists := True\<rparr>\<rparr>))
     else if \<not> datadir_exists (disk w) then (Inl FileNotFoundError, w)
     else if dirs (disk w) path \<noteq> None then (Inl FileExistsError, w)
     else (Inr (), w\<lparr>disk := (disk w)\<lparr>dirs := (dirs (disk w))(path \<mapsto> Map.empty)\<rparr>\<rparr>))"

definition save_blob :: "string \<Rightarrow> string \<Rightarrow> bytes \<Rightarrow> unit io" where
  "save_blob path fname blob = (\<lambda>w.
     if path = [] then
       (if datadir_exists (disk w)
        then (Inr (), w\<lparr>disk := (disk w)\<lparr>top_files := (top_files (disk w))(fname \<mapsto> blob)\<rparr>\<rparr>)
        else (Inl FileNotFoundError, w))
     else (case dirs (disk w) path of
         None \<Rightarrow> (Inl FileNotFoundError, w)
       | Some d \<Rightarrow> (Inr (), w\<lparr>disk := (disk w)\<lparr>dirs := (dirs (disk w))(path \<mapsto> d(fname \<mapsto> blob))\<rparr>\<rparr>)))"

definition file_at :: "filesys \<Rightarrow> string \<Rightarrow> string \<Rightarrow> bytes option" where
  "file_at fs path fname =
     (if path = [] then (if datadir_exists fs then top_files fs fname else None)
      else (case dirs fs path of None \<Rightarrow> None | Some d \<Rightarrow> d fname))"

definition load_blob :: "string \<Rightarrow> string \<Rightarrow> nat option \<Rightarrow> bytes option io" where
  "load_blob path fname sz = (\<lambda>w.
     case file_at (disk w) path fname of
       None \<Rightarrow> (Inr None, w)
     | Some v \<Rightarrow>
         (case sz of
            None \<Rightarrow> (Inr (Some v), w)
          | Some n \<Rightarrow> if n \<noteq> 0 \<and> length v \<noteq> n then (Inl ValueError, w) else (Inr (Some v), w)))"

definition unlink :: "string \<Rightarrow> string \<Rightarrow> unit io" where
  "unlink path fname = (\<lambda>w.
     if file_at (disk w) path fname = None then (Inl FileNotFoundError, w)
     else if path = [] then
       (Inr (), w\<lparr>disk := (disk w)\<lparr>top_files := (top_files (disk w))(fname := None)\<rparr>\<rparr>)
     else (case dirs (disk w) path of
         None \<Rightarrow> (Inl FileNotFoundError, w)
       | Some d \<Rightarrow> (Inr (), w\<lparr>disk := (disk w)\<lparr>dirs := (dirs (disk w))(path \<mapsto> d(fname := None))\<rparr>\<rparr>)))"

text \<open>\<^verbatim>\<open>shutil.rmtree\<close> of \<^verbatim>\<open>os.path.join(datadir, path)\<close>; with an empty \<open>path\<close> that is the
  data directory itself.\<close>

definition rmtree :: "string \<Rightarrow> unit io" where
  "rmtree path = (\<lambda>w.
     if path = [] then
       (if datadir_exists (disk w)
        then (Inr (), w\<lparr>disk := \<lparr>datadir_exists = False, top_files = Map.empty, dirs = Map.empty\<rparr>\<rparr>)
        else (Inl FileNotFoundError, w))
     else if dirs (disk w) path = None then (Inl FileNotFoundError, w)
     else (Inr (), w\<lparr>disk := (disk w)\<lparr>dirs := (dirs (disk w))(path := None)\<rparr>\<rparr>))"

subsection \<open>Signed blobs\<close>

definition verify_blob :: "env \<Rightarrow> bytes \<Rightarrow> bytes \<Rightarrow> error + bytes" where
  "verify_blob env msg pk =
     (let sig = drop (length msg - 64) msg;
          msg' = take (length msg - 64) msg
      in if sign_verify_detached env sig msg' pk then Inr msg' else Inl ValueError)"

text \<open>\<^verbatim>\<open>try: ... except ValueError: fail(s)\<close>\<close>

definition except_ValueError_fail :: "error + 'a \<Rightarrow> 'a io" where
  "except_ValueError_fail r =
     (case r of Inr x \<Rightarrow> ret x | Inl e \<Rightarrow> if e = ValueError then fail else raise e)"

text \<open>\<^verbatim>\<open>try: beta = pyoprf.evaluate(k, alpha)\<close> \<^verbatim>\<open>except: fail(s)\<close>\<close>

definition evaluate_or_fail :: "env \<Rightarrow> bytes \<Rightarrow> bytes \<Rightarrow> bytes io" where
  "evaluate_or_fail env k alpha = or_fail (oprf_evaluate env k alpha)"

section \<open>Authentication, commit and undo\<close>

definition auth_marker :: bytes where
  "auth_marker = [0, 4, 97, 117, 116, 104]"

definition ok_marker :: bytes where
  "ok_marker = [111, 107]"

definition auth :: "env \<Rightarrow> string \<Rightarrow> bytes \<Rightarrow> unit io" where
  "auth env hid alpha =
     io_bind (load_blob hid ''pub'' (Some 32)) (\<lambda>pk.
     io_bind (or_fail pk) (\<lambda>pk.
     io_bind (randombytes 32) (\<lambda>nonce.
     io_bind (load_blob hid ''key'' None) (\<lambda>k.
     io_bind (case k of
                None \<Rightarrow> ret []
              | Some k \<Rightarrow>
                  (case k of
                     [] \<Rightarrow> fail
                   | k0 # k1 \<Rightarrow> io_bind (evaluate_or_fail env k1 alpha) (\<lambda>b. ret (k0 # b)))) (\<lambda>beta.
     io_bind (send (beta @ nonce)) (\<lambda>_.
     io_bind (recv 64) (\<lambda>sig.
     if sign_verify_detached env sig nonce pk then send auth_marker else fail)))))))"

definition commit_undo :: "env \<Rightarrow> bytes \<Rightarrow> string \<Rightarrow> string \<Rightarrow> unit io" where
  "commit_undo env msg0 new old =
     (let (op, msg1) = pop msg0 1;
          (idb, msg2) = pop msg1 32;
          (alpha, msg) = pop msg2 32
      in
      io_bind (io_when (msg \<noteq> []) fail) (\<lambda>_.
      let hid = hexlify idb in
      io_bind (path_exists hid) (\<lambda>ex.
      io_bind (io_when (\<not> ex) fail) (\<lambda>_.
      io_bind (auth env hid alpha) (\<lambda>_.
      io_bind (io_bind (load_blob hid (''rules.'' @ new) (Some (RULE_SIZE env))) or_fail) (\<lambda>new_rules.
      io_bind (io_bind (load_blob hid ''rules'' (Some (RULE_SIZE env))) or_fail) (\<lambda>cur_rules.
      io_bind (io_bind (load_blob hid (''pub.'' @ new) (Some 32)) or_fail) (\<lambda>new_pub.
      io_bind (io_bind (load_blob hid ''pub'' (Some 32)) or_fail) (\<lambda>cur_pub.
      io_bind (io_bind (load_blob hid new (Some 33)) or_fail) (\<lambda>new_key.
      io_bind (io_bind (load_blob hid ''key'' (Some 33)) or_fail) (\<lambda>cur_key.
      io_bind (save_blob hid old cur_key) (\<lambda>_.
      io_bind (save_blob hid (''rules.'' @ old) cur_rules) (\<lambda>_.
      io_bind (save_blob hid (''pub.'' @ old) cur_pub) (\<lambda>_.
      io_bind (save_blob hid ''key'' new_key) (\<lambda>_.
      io_bind (save_blob hid ''rules'' new_rules) (\<lambda>_.
      io_bind (save_blob hid ''pub'' new_pub) (\<lambda>_.
      io_bind (unlink hid new) (\<lambda>_.
      io_bind (unlink hid (''pub.'' @ new)) (\<lambda>_.
      io_bind (unlink hid (''rules.'' @ new)) (\<lambda>_.
      send ok_marker))))))))))))))))))))"

section \<open>The host-record blob\<close>

definition update_blob :: "env \<Rightarrow> unit io" where
  "update_blob env =
     io_bind (recv (32 + 64)) (\<lambda>signed_id.
     io_bind (io_when (length signed_id \<noteq> 32 + 64) fail) (\<lambda>_.
     if sum_list (map unat (take 32 signed_id)) = 0 then ret ()
     else
       let hid = hexlify (take 32 signed_id) in
       io_bind (load_blob hid ''pub'' None) (\<lambda>pk.
       io_bind (case pk of
                  None \<Rightarrow>
                    io_bind (path_exists hid) (\<lambda>ex.
                    io_bind (io_when ex fail) (\<lambda>_.
                    ret (True, [0, 0])))
                | Some pk \<Rightarrow>
                    io_bind (except_ValueError_fail (verify_blob env signed_id pk)) (\<lambda>_.
                    io_bind (io_bind (load_blob hid ''blob'' None) or_fail) (\<lambda>blob.
                    ret (False, blob)))) (\<lambda>(new, blob).
       io_bind (send blob) (\<lambda>_.
       if new then
         io_bind (recv 32) (\<lambda>pk.
         io_bind (recv 2) (\<lambda>prefix.
         io_bind (lift (unpack_H_be prefix)) (\<lambda>bsize.
         io_bind (read_pkt (bsize + 64)) (\<lambda>signedblob.
         io_bind (except_ValueError_fail (verify_blob env (pk @ prefix @ signedblob) pk)) (\<lambda>blob.
         io_bind (path_exists []) (\<lambda>dex.
         io_bind (io_when (\<not> dex) (mkdir [])) (\<lambda>_.
         io_bind (path_exists hid) (\<lambda>tex.
         io_bind (io_when (\<not> tex) (mkdir hid)) (\<lambda>_.
         io_bind (save_blob hid ''pub'' pk) (\<lambda>_.
         save_blob hid ''blob'' (drop 32 blob)))))))))))
       else
         io_bind (recv 2) (\<lambda>prefix.
         io_bind (lift (unpack_H_be prefix)) (\<lambda>bsize.
         io_bind (read_pkt (bsize + 64)) (\<lambda>signedblob.
         io_bind (load_blob hid ''pub'' None) (\<lambda>pk.
         io_bind (case pk of
                    None \<Rightarrow> raise TypeError
                  | Some pk \<Rightarrow> except_ValueError_fail (verify_blob env (prefix @ signedblob) pk)) (\<lambda>blob.
         save_blob hid ''blob'' blob))))))))))"

section \<open>Creating an account\<close>

definition create :: "env \<Rightarrow> bytes \<Rightarrow> unit io" where
  "create env msg0 =
     io_bind (io_when (length msg0 \<noteq> 65) fail) (\<lambda>_.
     let (op, msg1) = pop msg0 1;
         (idb, msg2) = pop msg1 32;
         (alpha, msg3) = pop msg2 32;
         hid = hexlify idb
     in
     io_bind (path_exists hid) (\<lambda>ex.
     io_bind (io_when ex fail) (\<lambda>_.
     io_bind (randombytes 32) (\<lambda>k.
     io_bind (evaluate_or_fail env k alpha) (\<lambda>beta.
     io_bind (send beta) (\<lambda>_.
     io_bind (recv (32 + RULE_SIZE env + 64)) (\<lambda>msg.
     io_bind (io_when (length msg \<noteq> 32 + RULE_SIZE env + 64) fail) (\<lambda>_.
     io_bind (except_ValueError_fail (verify_blob env msg (take 32 msg))) (\<lambda>vmsg.
     io_bind (update_blob env) (\<lambda>_.
     io_bind (path_exists []) (\<lambda>dex.
     io_bind (io_when (\<not> dex) (mkdir [])) (\<lambda>_.
     io_bind (mkdir hid) (\<lambda>_.
     io_bind (save_blob hid ''key'' k) (\<lambda>_.
     io_bind (save_blob hid ''pub'' (take 32 msg)) (\<lambda>_.
     io_bind (save_blob hid ''rules'' (drop 32 vmsg)) (\<lambda>_.
     send ok_marker))))))))))))))))"

definition dkg :: "env \<Rightarrow> nat \<Rightarrow> nat \<Rightarrow> nat \<Rightarrow> bytes \<Rightarrow> bytes io" where
  "dkg env n t index aux = (\<lambda>w.
     case dkg_exchange env n t index aux (inp w) (rand_tape w) (rand_pos w) of
       (r, rest, sent, pos) \<Rightarrow> (r, w\<lparr>inp := rest, out := out w @ sent, rand_pos := pos\<rparr>))"

definition create_dkg :: "env \<Rightarrow> bytes \<Rightarrow> unit io" where
  "create_dkg env msg0 =
     io_bind (io_when (length msg0 \<noteq> 68) fail) (\<lambda>_.
     let (op, msg1) = pop msg0 1 in
     io_bind (lift (pop_byte msg1)) (\<lambda>(index, msg2).
     io_bind (lift (pop_byte msg2)) (\<lambda>(t, msg3).
     io_bind (lift (pop_byte msg3)) (\<lambda>(n, msg4).
     let (idb, msg5) = pop msg4 32;
         (alpha, msg6) = pop msg5 32;
         aux = op @ alpha;
         hid = hexlify idb
     in
     io_bind (path_exists hid) (\<lambda>ex.
     io_bind (io_when ex fail) (\<lambda>_.
     io_bind (dkg env n t index aux) (\<lambda>xi.
     io_bind (evaluate_or_fail env (drop 1 xi) alpha) (\<lambda>beta.
     io_bind (case xi of [] \<Rightarrow> raise IndexError | x0 # _ \<Rightarrow> send (x0 # beta)) (\<lambda>_.
     io_bind (recv (32 + RULE_SIZE env + 64)) (\<lambda>msg.
     io_bind (io_when (length msg \<noteq> 32 + RULE_SIZE env + 64) fail) (\<lambda>_.
     io_bind (except_ValueError_fail (verify_blob env msg (take 32 msg))) (\<lambda>vmsg.
     io_bind (update_blob env) (\<lambda>_.
     io_bind (path_exists []) (\<lambda>dex.
     io_bind (io_when (\<not> dex) (mkdir [])) (\<lambda>_.
     io_bind (mkdir hid) (\<lambda>_.
     io_bind (save_blob hid ''key'' xi) (\<lambda>_.
     io_bind (save_blob hid ''pub'' (take 32 msg)) (\<lambda>_.
     io_bind (save_blob hid ''rules'' (drop 32 vmsg)) (\<lambda>_.
     send ok_marker)))))))))))))))))))"

section \<open>Operations behind the proof of work\<close>

definition get :: "env \<Rightarrow> bytes \<Rightarrow> unit io" where
  "get env msg0 =
     (let (u, msg1) = pop msg0 1;
          (idb, msg2) = pop msg1 32;
          (alpha, msg) = pop msg2 32
      in
      io_bind (io_when (msg \<noteq> []) fail) (\<lambda>_.
      let hid = hexlify idb in
      io_bind (io_bind (load_blob hid ''key'' (Some 33)) or_fail) (\<lambda>k.
      io_bind (io_bind (load_blob hid ''rules'' (Some (RULE_SIZE env))) or_fail) (\<lambda>rules.
      io_bind (evaluate_or_fail env (drop 1 k) alpha) (\<lambda>beta.
      send (take 1 k @ beta @ rules))))))"

definition change :: "env \<Rightarrow> bytes \<Rightarrow> unit io" where
  "change env msg0 =
     (let (op, msg1) = pop msg0 1;
          (idb, msg2) = pop msg1 32;
          (alpha, msg) = pop msg2 32
      in
      io_bind (io_when (msg \<noteq> []) fail) (\<lambda>_.
      let hid = hexlify idb in
      io_bind (path_exists hid) (\<lambda>ex.
      io_bind (io_when (\<not> ex) fail) (\<lambda>_.
      io_bind (auth env hid alpha) (\<lambda>_.
      io_bind (recv 32) (\<lambda>alpha'.
      io_bind (io_when (length alpha' \<noteq> 32) fail) (\<lambda>_.
      io_bind (randombytes 32) (\<lambda>k.
      io_bind (evaluate_or_fail env k alpha') (\<lambda>beta.
      io_bind (send beta) (\<lambda>_.
      io_bind (recv (32 + RULE_SIZE env + 64)) (\<lambda>blob.
      io_bind (io_when (length blob \<noteq> 32 + RULE_SIZE env + 64) fail) (\<lambda>_.
      io_bind (except_ValueError_fail (verify_blob env blob (take 32 blob))) (\<lambda>vblob.
      io_bind (save_blob hid ''new'' k) (\<lambda>_.
      io_bind (save_blob hid ''rules.new'' (drop 32 vblob)) (\<lambda>_.
      io_bind (save_blob hid ''pub.new'' (take 32 blob)) (\<lambda>_.
      send ok_marker))))))))))))))))"

definition change_dkg :: "env \<Rightarrow> bytes \<Rightarrow> unit io" where
  "change_dkg env msg0 =
     (let (op, msg1) = pop msg0 1;
          (idb, msg2) = pop msg1 32;
          (alpha, msg) = pop msg2 32
      in
      io_bind (io_when (msg \<noteq> []) fail) (\<lambda>_.
      let aux = op @ alpha;
          hid = hexlify idb
      in
      io_bind (path_exists hid) (\<lambda>ex.
      io_bind (io_when (\<not> ex) fail) (\<lambda>_.
      io_bind (auth env hid alpha) (\<lambda>_.
      io_bind (recv 35) (\<lambda>m0.
      io_bind (lift (pop_byte m0)) (\<lambda>(t, m1).
      io_bind (lift (pop_byte m1)) (\<lambda>(n, m2).
      io_bind (lift (pop_byte m2)) (\<lambda>(index, alpha').
      io_bind (dkg env n t index aux) (\<lambda>xi.
      io_bind (evaluate_or_fail env (drop 1 xi) alpha') (\<lambda>beta.
      io_bind (case xi of [] \<Rightarrow> raise IndexError | x0 # _ \<Rightarrow> send (x0 # beta)) (\<lambda>_.
      io_bind (recv (32 + RULE_SIZE env + 64)) (\<lambda>blob.
      io_bind (io_when (length blob \<noteq> 32 + RULE_SIZE env + 64) fail) (\<lambda>_.
      io_bind (except_ValueError_fail (verify_blob env blob (take 32 blob))) (\<lambda>vblob.
      io_bind (save_blob hid ''new'' xi) (\<lambda>_.
      io_bind (save_blob hid ''rules.new'' (drop 32 vblob)) (\<lambda>_.
      io_bind (save_blob hid ''pub.new'' (take 32 blob)) (\<lambda>_.
      send ok_marker))))))))))))))))))"

definition delete :: "env \<Rightarrow> bytes \<Rightarrow> unit io" where
  "delete env msg0 =
     (let (op, msg1) = pop msg0 1;
          (idb, msg2) = pop msg1 32;
          (alpha, msg) = pop msg2 32
      in
      io_bind (io_when (msg \<noteq> []) fail) (\<lambda>_.
      let hid = hexlify idb in
      io_bind (path_exists hid) (\<lambda>ex.
      io_bind (io_when (\<not> ex) fail) (\<lambda>_.
      io_bind (auth env hid alpha) (\<lambda>_.
      io_bind (update_blob env) (\<lambda>_.
      io_bind (rmtree hid) (\<lambda>_.
      send ok_marker)))))))"

definition read :: "env \<Rightarrow> bytes \<Rightarrow> unit io" where
  "read env msg0 =
     (let (op, msg1) = pop msg0 1;
          (idb, msg2) = pop msg1 32;
          (alpha, msg) = pop msg2 32;
          hid = hexlify idb
      in
      io_bind (auth env hid alpha) (\<lambda>_.
      io_bind (load_blob hid ''blob'' None) (\<lambda>blob.
      send (case blob of None \<Rightarrow> [] | Some b \<Rightarrow> b))))"

text \<open>\<^verbatim>\<open>handler\<close> ends with \<^verbatim>\<open>conn.close(); os._exit(0)\<close>: the worker is done.\<close>

definition handler :: "env \<Rightarrow> bytes \<Rightarrow> unit io" where
  "handler env data =
     (if take 1 data = [GET env] then get env data
      else if take 1 data = [CHANGE env] then change env data
      else if take 1 data = [CHANGE_DKG env] then change_dkg env data
      else if take 1 data = [DELETE env] then delete env data
      else if take 1 data = [COMMIT env] then commit_undo env data ''new'' ''old''
      else if take 1 data = [UNDO env] then commit_undo env data ''old'' ''new''
      else if take 1 data = [READ env] then read env data
      else ret ())"

section \<open>The rate limiter\<close>

text \<open>The ladder \<^verbatim>\<open>Difficulties\<close> (lines 52-68), each entry \<open>(n, k, timeout)\<close>, and the
  dictionary \<^verbatim>\<open>RL_Timeouts\<close> built from it (a later entry would replace an earlier one
  with the same key).\<close>

definition Difficulties :: "(nat \<times> nat \<times> nat) list" where
  "Difficulties =
     [(60, 4, 1), (65, 4, 2), (70, 4, 4), (75, 4, 9), (80, 4, 16), (85, 4, 32), (90, 4, 80),
      (95, 4, 160), (100, 4, 320), (105, 4, 640), (110, 4, 1280), (115, 4, 2560),
      (120, 4, 5120)]"

definition RL_Timeouts :: "nat \<times> nat \<Rightarrow> nat option" where
  "RL_Timeouts = map_of (rev (map (\<lambda>(n, k, t). ((n, k), t)) Difficulties))"

text \<open>\<^verbatim>\<open>Difficulties[level]\<close>: a Python list index, negative ones counting from the end.\<close>

definition Difficulties_at :: "int \<Rightarrow> error + (nat \<times> nat \<times> nat)" where
  "Difficulties_at level =
     (let L = int (length Difficulties) in
      if 0 \<le> level \<and> level < L then Inr (Difficulties ! nat level)
      else if - L \<le> level \<and> level < 0 then Inr (Difficulties ! nat (L + level))
      else Inl IndexError)"

text \<open>The \<^verbatim>\<open>if/elif/else\<close> of \<^verbatim>\<open>create_challenge\<close> on a stored difficulty (lines 642-658):
  from \<open>level\<close>, \<open>count\<close> and \<open>ts\<close> as unpacked, the new \<open>(level, count)\<close>. The float floor
  division by a zero \<^verbatim>\<open>rl_decay\<close> raises.\<close>

definition next_level :: "env \<Rightarrow> real \<Rightarrow> int \<Rightarrow> int \<Rightarrow> int \<Rightarrow> error + (int \<times> int)" where
  "next_level env now level count ts =
     (if level \<ge> int (length Difficulties) then Inr (int (length Difficulties) - 1, 0)
      else if now - real_of_int (rl_decay env) > real_of_int ts \<and> level > 0 then
        (if rl_decay env = 0 then Inl ZeroDivisionError
         else
           let periods = py_int (real_of_int \<lfloor>(now - real_of_int ts) / real_of_int (rl_decay env)\<rfloor>) in
           Inr (if level \<ge> periods then level - periods else 0, 0))
      else
        (if count \<ge> rl_threshold env \<and> level < int (length Difficulties) - 1
         then Inr (level + 1, 0)
         else Inr (level, count + 1)))"

text \<open>Python's truth value of what \<^verbatim>\<open>load_blob\<close> returned: \<^verbatim>\<open>None\<close> and \<^verbatim>\<open>b''\<close> are false.\<close>

definition truthy :: "bytes option \<Rightarrow> bool" where
  "truthy v = (case v of None \<Rightarrow> False | Some b \<Rightarrow> b \<noteq> [])"

definition create_challenge :: "env \<Rightarrow> unit io" where
  "create_challenge env =
     io_bind (recv 65) (\<lambda>req.
     io_bind (io_when (if take 1 req = [READ env] then length req \<noteq> 33 else length req \<noteq> 65) fail) (\<lambda>_.
     io_bind now_timestamp (\<lambda>now.
     let hid = hexlify (take 32 (drop 1 req)) in
     io_bind (load_blob hid ''difficulty'' (Some 9)) (\<lambda>diff.
     io_bind (case (if truthy diff then diff else None) of
                None \<Rightarrow>
                  (case Difficulties of
                     [] \<Rightarrow> raise IndexError
                   | (n, k, t) # _ \<Rightarrow> ret (n, k, 0, 0))
              | Some d \<Rightarrow>
                  io_bind (lift (unpack_uint 1 (take 1 d))) (\<lambda>level.
                  io_bind (lift (unpack_uint 4 (take 4 (drop 1 d)))) (\<lambda>count.
                  io_bind (lift (unpack_uint 4 (drop 5 d))) (\<lambda>ts.
                  io_bind (lift (next_level env now level count ts)) (\<lambda>(level, count).
                  io_bind (lift (Difficulties_at level)) (\<lambda>(n, k, t).
                  ret (n, k, level, count))))))) (\<lambda>(n, k, level, count).
     io_bind (lift (pack_uint 1 level)) (\<lambda>b_level.
     io_bind (lift (pack_uint 4 count)) (\<lambda>b_count.
     io_bind (lift (pack_uint 4 (py_int now))) (\<lambda>b_ts.
     io_bind (\<lambda>w. case save_blob hid ''difficulty'' (b_level @ b_count @ b_ts) w of
                      (Inl e, w') \<Rightarrow>
                        if e = FileNotFoundError \<and> \<not> truthy diff then (Inr (), w') else (Inl e, w')
                    | (Inr u, w') \<Rightarrow> (Inr u, w')) (\<lambda>_.
     io_bind (lift (pack_uint 8 (py_int now))) (\<lambda>b_now.
     let challenge = [of_nat n, of_nat k] @ b_now in
     io_bind (load_blob [] ''key'' (Some 32)) (\<lambda>key.
     io_bind (case (if truthy key then key else None) of
                None \<Rightarrow>
                  io_bind (randombytes 32) (\<lambda>key.
                  io_bind (save_blob [] ''key'' key) (\<lambda>_.
                  ret key))
              | Some key \<Rightarrow> ret key) (\<lambda>key.
     send (challenge @ generichash env key (req @ challenge))))))))))))))"

definition verify_challenge :: "env \<Rightarrow> unit io" where
  "verify_challenge env =
     io_bind (recv (1 + 1 + 8 + 32)) (\<lambda>challenge.
     io_bind (io_when (length challenge \<noteq> 42) fail) (\<lambda>_.
     io_bind (lift (pop_byte challenge)) (\<lambda>(n, tmp1).
     io_bind (lift (pop_byte tmp1)) (\<lambda>(k, tmp2).
     let (tsb, tmp3) = pop tmp2 8 in
     io_bind (lift (unpack_uint 8 tsb)) (\<lambda>ts.
     let (sig, tmp4) = pop tmp3 32 in
     io_bind (recv 1) (\<lambda>req_type.
     io_bind (if take 1 req_type = [READ env]
              then io_bind (recv 32) (\<lambda>payload.
                   io_bind (io_when (length payload \<noteq> 32) fail) (\<lambda>_. ret payload))
              else io_bind (recv 64) (\<lambda>payload.
                   io_bind (io_when (length payload \<noteq> 64) fail) (\<lambda>_. ret payload))) (\<lambda>payload.
     let req = req_type @ payload in
     io_bind (load_blob [] ''key'' (Some 32)) (\<lambda>key.
     io_bind (or_fail (if truthy key then key else None)) (\<lambda>key.
     let tosign = take 10 challenge;
         mac = generichash env key (req @ tosign)
     in
     io_bind (io_when (sum_list (map (\<lambda>(m, i). unat (m XOR i)) (zip mac sig)) \<noteq> 0) fail) (\<lambda>_.
     io_bind now_timestamp (\<lambda>now.
     io_bind (case RL_Timeouts (n, k) of None \<Rightarrow> raise KeyError | Some t \<Rightarrow> ret t) (\<lambda>tmo.
     io_bind (io_when (now - real_of_int (int tmo + rl_gracetime env) > real_of_int ts) fail) (\<lambda>_.
     let solsize = equihash_solsize env n k in
     io_bind (recv solsize) (\<lambda>solution.
     io_bind (io_when (length solution \<noteq> solsize) fail) (\<lambda>_.
     let seed = challenge @ req in
     io_bind (io_when (\<not> equihash_verify env n k seed solution) fail) (\<lambda>_.
     handler env req))))))))))))))))"

definition ratelimit :: "env \<Rightarrow> unit io" where
  "ratelimit env =
     io_bind (recv 1) (\<lambda>op.
     if op = [CREATE env] then
       io_bind (recv 64) (\<lambda>d. create env (CREATE env # d))
     else if op = [CREATE_DKG env] then
       io_bind (recv 67) (\<lambda>d. create_dkg env (CREATE_DKG env # d))
     else if op = [CHALLENGE_CREATE env] then create_challenge env
     else if op = [CHALLENGE_VERIFY env] then verify_challenge env
     else ret ())"

section \<open>Reasoning about runs\<close>

text \<open>\<open>runs w m Q E\<close>: started in \<open>w\<close>, \<open>m\<close> ends either with a value and a world that
  satisfy \<open>Q\<close> or with an error and a world that satisfy \<open>E\<close>.\<close>

definition runs :: "world \<Rightarrow> 'a io \<Rightarrow> ('a \<Rightarrow> world \<Rightarrow> bool) \<Rightarrow> (error \<Rightarrow> world \<Rightarrow> bool) \<Rightarrow> bool" where
  "runs w m Q E = (case m w of (Inl e, w') \<Rightarrow> E e w' | (Inr x, w') \<Rightarrow> Q x w')"

definition path_ok :: "filesys \<Rightarrow> string \<Rightarrow> bool" where
  "path_ok fs p = (if p = [] then datadir_exists fs else dirs fs p \<noteq> None)"

definition put_file :: "filesys \<Rightarrow> string \<Rightarrow> string \<Rightarrow> bytes option \<Rightarrow> filesys" where
  "put_file fs p f v =
     (if p = [] then fs\<lparr>top_files := (top_files fs)(f := v)\<rparr>
      else (case dirs fs p of None \<Rightarrow> fs | Some d \<Rightarrow> fs\<lparr>dirs := (dirs fs)(p \<mapsto> d(f := v))\<rparr>))"

definition recv_data :: "nat \<Rightarrow> bytes list \<Rightarrow> bytes" where
  "recv_data n cs = (case cs of [] \<Rightarrow> [] | c # _ \<Rightarrow> take n c)"

definition recv_rest :: "nat \<Rightarrow> bytes list \<Rightarrow> bytes list" where
  "recv_rest n cs = (case cs of [] \<Rightarrow> [] | c # cs' \<Rightarrow> if drop n c = [] then cs' else drop n c # cs')"

definition blob_bad :: "bytes option \<Rightarrow> nat option \<Rightarrow> bool" where
  "blob_bad v sz = (case sz of None \<Rightarrow> False
     | Some n \<Rightarrow> (case v of None \<Rightarrow> False | Some b \<Rightarrow> n \<noteq> 0 \<and> length b \<noteq> n))"

text \<open>The disk after the writes of \<^verbatim>\<open>commit_undo\<close> (lines 571-583), in their order.\<close>

definition rotate_disk :: "string \<Rightarrow> string \<Rightarrow> string \<Rightarrow> filesys \<Rightarrow> filesys" where
  "rotate_disk hid new old fs =
     fold (\<lambda>(f, v) a. put_file a hid f v)
       [(old, file_at fs hid ''key''), (''rules.'' @ old, file_at fs hid ''rules''),
        (''pub.'' @ old, file_at fs hid ''pub''), (''key'', file_at fs hid new),
        (''rules'', file_at fs hid (''rules.'' @ new)), (''pub'', file_at fs hid (''pub.'' @ new)),
        (new, None), (''pub.'' @ new, None), (''rules.'' @ new, None)] fs"

text \<open>The files of one directory (of the data directory itself for the empty path), and
  the disk with them replaced.\<close>

definition files :: "filesys \<Rightarrow> string \<Rightarrow> (string \<rightharpoonup> bytes)" where
  "files fs p = (if p = [] then top_files fs else (case dirs fs p of None \<Rightarrow> Map.empty | Some d \<Rightarrow> d))"

definition set_files :: "filesys \<Rightarrow> string \<Rightarrow> (string \<rightharpoonup> bytes) \<Rightarrow> filesys" where
  "set_files fs p F = (if p = [] then fs\<lparr>top_files := F\<rparr> else fs\<lparr>dirs := (dirs fs)(p \<mapsto> F)\<rparr>)"

section \<open>Test data\<close>

text \<open>A concrete environment for the closed theorems: the opcode bytes the source's
  comments name (\<^verbatim>\<open>0x00\<close>, \<^verbatim>\<open>0xf0\<close>, \<^verbatim>\<open>0x66\<close>) and arbitrary distinct ones for the rest, a
  rule size of 2, the default configuration, and stand-ins for the primitives.\<close>

definition test_env :: env where
  "test_env = \<lparr>RULE_SIZE = 2, CREATE = 0, CREATE_DKG = 240, GET = 102, CHANGE = 170, CHANGE_DKG = 250,
     DELETE = 255, COMMIT = 153, UNDO = 85, READ = 51, CHALLENGE_CREATE = 90, CHALLENGE_VERIFY = 165,
     rl_decay = 1800, rl_threshold = 1, rl_gracetime = 10,
     oprf_evaluate = (\<lambda>k a. if length k = 32 \<and> length a = 32 then Some (map (\<lambda>(x, y). x XOR y) (zip k a)) else None),
     sign_verify_detached = (\<lambda>sig msg pk. length sig = 64 \<and> length pk = 32),
     generichash = (\<lambda>key data. replicate 32 7),
     equihash_solsize = (\<lambda>n k. 1),
     equihash_verify = (\<lambda>n k seed sol. sol = [of_nat (length seed)]),
     dkg_exchange = (\<lambda>n t index aux chunks tape pos. (Inr (of_nat index # replicate 32 9), chunks, [], pos))\<rparr>"

definition test_id :: bytes where
  "test_id = replicate 32 171"

definition test_hid :: string where
  "test_hid = ''abababababababababababababababababababababababababababababababab''"

definition test_dir :: "string \<rightharpoonup> bytes" where
  "test_dir = [''key'' \<mapsto> replicate 33 1, ''rules'' \<mapsto> [1, 1], ''pub'' \<mapsto> replicate 32 1,
               ''new'' \<mapsto> replicate 33 2, ''rules.new'' \<mapsto> [2, 2], ''pub.new'' \<mapsto> replicate 32 2]"

definition test_disk :: filesys where
  "test_disk = \<lparr>datadir_exists = True, top_files = [''key'' \<mapsto> replicate 32 8], dirs = [test_hid \<mapsto> test_dir]\<rparr>"

definition test_world :: "filesys \<Rightarrow> bytes list \<Rightarrow> world" where
  "test_world fs chunks = \<lparr>disk = fs, inp = chunks, out = [], rand_tape = (\<lambda>i. 5), rand_pos = 0, clock = 1000\<rparr>"

definition test_commit_msg :: bytes where
  "test_commit_msg = 153 # test_id @ replicate 32 3"

definition test_undo_msg :: bytes where
  "test_undo_msg = 85 # test_id @ replicate 32 3"

definition test_after_commit :: world where
  "test_after_commit =
     test_world (disk (snd (commit_undo test_env test_commit_msg ''new'' ''old''
                              (test_world test_disk [replicate 64 0])))) [replicate 64 0]"

definition test_disk_live :: filesys where
  "test_disk_live = \<lparr>datadir_exists = True, top_files = Map.empty,
     dirs = [test_hid \<mapsto> [''key'' \<mapsto> replicate 33 1, ''rules'' \<mapsto> [1, 1], ''pub'' \<mapsto> replicate 32 1]]\<rparr>"

text \<open>A challenge for the first rung \<open>(60, 4)\<close> issued at second 1000 with the MAC the
  test environment computes, and a GET request for the test account.\<close>

definition test_tsb :: bytes where
  "test_tsb = [232, 3, 0, 0, 0, 0, 0, 0]"

definition test_req_payload :: bytes where
  "test_req_payload = test_id @ replicate 32 3"

definition test_verify_world :: "real \<Rightarrow> bytes \<Rightarrow> world" where
  "test_verify_world now solution =
     \<lparr>disk = test_disk,
      inp = [(60 # 4 # test_tsb @ replicate 32 7), [102], test_req_payload, solution],
      out = [], rand_tape = (\<lambda>i. 5), rand_pos = 0, clock = now\<rparr>"

section \<open>Rules for runs\<close>

lemma runsI:
  assumes "\<And>e w'. m w = (Inl e, w') \<Longrightarrow> E e w'" and "\<And>x w'. m w = (Inr x, w') \<Longrightarrow> Q x w'"
  shows "runs w m Q E"
proof (cases "m w")
  case (Pair a w')
  show ?thesis
  proof (cases a)
    case (Inl e)
    with Pair assms(1) [of e w'] show ?thesis by (simp add: runs_def)
  next
    case (Inr x)
    with Pair assms(2) [of x w'] show ?thesis by (simp add: runs_def)
  qed
qed

lemma runs_InlD: "runs w m Q E \<Longrightarrow> m w = (Inl e, w') \<Longrightarrow> E e w'"
  by (simp add: runs_def)

lemma runs_InrD: "runs w m Q E \<Longrightarrow> m w = (Inr x, w') \<Longrightarrow> Q x w'"
  by (simp add: runs_def)

lemma runs_bind:
  assumes "runs w m (\<lambda>x w'. runs w' (g x) Q E) E"
  shows "runs w (io_bind m g) Q E"
proof (cases "m w")
  case (Pair a w')
  show ?thesis
  proof (cases a)
    case (Inl e)
    with Pair runs_InlD [OF assms, of e w'] show ?thesis by (simp add: runs_def io_bind_def)
  next
    case (Inr x)
    with Pair runs_InrD [OF assms, of x w'] show ?thesis by (simp add: runs_def io_bind_def)
  qed
qed

lemma runs_Inr: "m w = (Inr x, w') \<Longrightarrow> runs w' (g x) Q E \<Longrightarrow> runs w (io_bind m g) Q E"
  by (simp add: runs_def io_bind_def)

lemma runs_Inl: "m w = (Inl e, w') \<Longrightarrow> E e w' \<Longrightarrow> runs w (io_bind m g) Q E"
  by (simp add: runs_def io_bind_def)

lemma runs_final_Inr: "m w = (Inr x, w') \<Longrightarrow> Q x w' \<Longrightarrow> runs w m Q E"
  by (simp add: runs_def)

lemma runs_final_Inl: "m w = (Inl e, w') \<Longrightarrow> E e w' \<Longrightarrow> runs w m Q E"
  by (simp add: runs_def)

lemma out_upd: "w\<lparr>out := f (out w)\<rparr> = out_update f w"
  by (cases w) simp

lemma disk_upd: "w\<lparr>disk := f (disk w)\<rparr> = disk_update f w"
  by (cases w) simp

lemma rand_pos_upd: "w\<lparr>rand_pos := f (rand_pos w)\<rparr> = rand_pos_update f w"
  by (cases w) simp

subsection \<open>What each primitive does\<close>

lemma ret_run: "ret x w = (Inr x, w)"
  by (simp add: ret_def)

lemma raise_run: "raise e w = (Inl e, w)"
  by (simp add: raise_def)

lemma fail_run: "fail w = (Inl Failed, out_update (\<lambda>xs. xs @ [fail_marker]) w)"
  by (simp add: fail_def out_upd [where f = "\<lambda>xs. xs @ [fail_marker]"])

lemma send_run: "send b w = (Inr (), out_update (\<lambda>xs. xs @ [b]) w)"
  by (simp add: send_def out_upd [where f = "\<lambda>xs. xs @ [b]"])

lemma recv_run: "recv n w = (Inr (recv_data n (inp w)), inp_update (recv_rest n) w)"
  by (cases w) (simp add: recv_def recv_data_def recv_rest_def split: list.splits)

lemma randombytes_run:
  "randombytes n w = (Inr (map (rand_tape w) [rand_pos w ..< rand_pos w + n]), rand_pos_update (\<lambda>p. p + n) w)"
  by (simp add: randombytes_def rand_pos_upd [where f = "\<lambda>p. p + n"])

lemma now_timestamp_run: "now_timestamp w = (Inr (clock w), w)"
  by (simp add: now_timestamp_def)

lemma path_exists_run: "path_exists p w = (Inr (path_ok (disk w) p), w)"
  by (simp add: path_exists_def path_ok_def)

lemma load_blob_run:
  "load_blob p f sz w =
     (if blob_bad (file_at (disk w) p f) sz then (Inl ValueError, w) else (Inr (file_at (disk w) p f), w))"
  by (simp add: load_blob_def blob_bad_def split: option.splits)

lemma save_blob_run:
  "save_blob p f b w =
     (if path_ok (disk w) p then (Inr (), disk_update (\<lambda>fs. put_file fs p f (Some b)) w)
      else (Inl FileNotFoundError, w))"
  by (simp add: save_blob_def path_ok_def put_file_def
      disk_upd [where f = "\<lambda>fs. put_file fs p f (Some b)", symmetric] split: option.splits)

lemma unlink_run:
  "unlink p f w =
     (if file_at (disk w) p f = None then (Inl FileNotFoundError, w)
      else (Inr (), disk_update (\<lambda>fs. put_file fs p f None) w))"
  by (simp add: unlink_def file_at_def put_file_def
      disk_upd [where f = "\<lambda>fs. put_file fs p f None", symmetric] split: option.splits)

subsection \<open>Stepping through a function body\<close>

lemma runs_assoc: "runs w (io_bind m (\<lambda>x. io_bind (f x) g)) Q E \<Longrightarrow> runs w (io_bind (io_bind m f) g) Q E"
  by (simp add: runs_def io_bind_def split: prod.splits sum.splits)

lemma runs_ret: "runs w (g x) Q E \<Longrightarrow> runs w (io_bind (ret x) g) Q E"
  by (rule runs_Inr [OF ret_run])

lemma runs_raise: "E e w \<Longrightarrow> runs w (io_bind (raise e) g) Q E"
  by (rule runs_Inl [OF raise_run])

lemma runs_fail: "E Failed (out_update (\<lambda>xs. xs @ [fail_marker]) w) \<Longrightarrow> runs w (io_bind fail g) Q E"
  by (rule runs_Inl [OF fail_run])

lemma runs_lift:
  assumes "\<And>e. r = Inl e \<Longrightarrow> E e w" and "\<And>x. r = Inr x \<Longrightarrow> runs w (g x) Q E"
  shows "runs w (io_bind (lift r) g) Q E"
proof (cases r)
  case (Inl e)
  with assms(1) [of e] show ?thesis by (simp add: lift_def runs_raise)
next
  case (Inr x)
  with assms(2) [of x] show ?thesis by (simp add: lift_def runs_ret)
qed

lemma runs_or_fail:
  assumes "v = None \<Longrightarrow> E Failed (out_update (\<lambda>xs. xs @ [fail_marker]) w)"
    and "\<And>x. v = Some x \<Longrightarrow> runs w (g x) Q E"
  shows "runs w (io_bind (or_fail v) g) Q E"
proof (cases v)
  case None
  with assms(1) show ?thesis by (simp add: or_fail_def runs_fail)
next
  case (Some x)
  with assms(2) [of x] show ?thesis by (simp add: or_fail_def runs_ret)
qed

lemma runs_when_fail:
  assumes "c \<Longrightarrow> E Failed (out_update (\<lambda>xs. xs @ [fail_marker]) w)"
    and "\<not> c \<Longrightarrow> runs w (g ()) Q E"
  shows "runs w (io_bind (io_when c fail) g) Q E"
proof (cases c)
  case True
  with assms(1) show ?thesis by (simp add: io_when_def runs_fail)
next
  case False
  with assms(2) show ?thesis by (simp add: io_when_def runs_ret)
qed

lemma runs_when:
  assumes "c \<Longrightarrow> runs w (io_bind m g) Q E" and "\<not> c \<Longrightarrow> runs w (g ()) Q E"
  shows "runs w (io_bind (io_when c m) g) Q E"
proof (cases c)
  case True
  with assms(1) show ?thesis by (simp add: io_when_def)
next
  case False
  with assms(2) show ?thesis by (simp add: io_when_def runs_ret)
qed

lemma runs_except_ValueError_fail:
  assumes "r = Inl ValueError \<Longrightarrow> E Failed (out_update (\<lambda>xs. xs @ [fail_marker]) w)"
    and "\<And>e. r = Inl e \<Longrightarrow> e \<noteq> ValueError \<Longrightarrow> E e w"
    and "\<And>x. r = Inr x \<Longrightarrow> runs w (g x) Q E"
  shows "runs w (io_bind (except_ValueError_fail r) g) Q E"
proof (cases r)
  case (Inl e)
  show ?thesis
  proof (cases "e = ValueError")
    case True
    with Inl assms(1) show ?thesis by (simp add: except_ValueError_fail_def runs_fail)
  next
    case False
    with Inl assms(2) [of e] show ?thesis by (simp add: except_ValueError_fail_def runs_raise)
  qed
next
  case (Inr x)
  with assms(3) [of x] show ?thesis by (simp add: except_ValueError_fail_def runs_ret)
qed

lemma runs_send: "runs (out_update (\<lambda>xs. xs @ [b]) w) (g ()) Q E \<Longrightarrow> runs w (io_bind (send b) g) Q E"
  by (rule runs_Inr [OF send_run])

lemma runs_recv:
  "runs (inp_update (recv_rest n) w) (g (recv_data n (inp w))) Q E \<Longrightarrow> runs w (io_bind (recv n) g) Q E"
  by (rule runs_Inr [OF recv_run])

lemma runs_randombytes:
  "runs (rand_pos_update (\<lambda>p. p + n) w) (g (map (rand_tape w) [rand_pos w ..< rand_pos w + n])) Q E
   \<Longrightarrow> runs w (io_bind (randombytes n) g) Q E"
  by (rule runs_Inr [OF randombytes_run])

lemma runs_now: "runs w (g (clock w)) Q E \<Longrightarrow> runs w (io_bind now_timestamp g) Q E"
  by (rule runs_Inr [OF now_timestamp_run])

lemma runs_path_exists: "runs w (g (path_ok (disk w) p)) Q E \<Longrightarrow> runs w (io_bind (path_exists p) g) Q E"
  by (rule runs_Inr [OF path_exists_run])

lemma runs_load_blob:
  assumes "blob_bad (file_at (disk w) p f) sz \<Longrightarrow> E ValueError w"
    and "\<not> blob_bad (file_at (disk w) p f) sz \<Longrightarrow> runs w (g (file_at (disk w) p f)) Q E"
  shows "runs w (io_bind (load_blob p f sz) g) Q E"
proof (cases "blob_bad (file_at (disk w) p f) sz")
  case True
  with assms(1) show ?thesis by (simp add: runs_Inl [where e = ValueError and w' = w] load_blob_run)
next
  case False
  with assms(2) show ?thesis
    by (simp add: runs_Inr [where x = "file_at (disk w) p f" and w' = w] load_blob_run)
qed

lemma runs_save_blob:
  assumes "\<not> path_ok (disk w) p \<Longrightarrow> E FileNotFoundError w"
    and "path_ok (disk w) p \<Longrightarrow> runs (disk_update (\<lambda>fs. put_file fs p f (Some b)) w) (g ()) Q E"
  shows "runs w (io_bind (save_blob p f b) g) Q E"
proof (cases "path_ok (disk w) p")
  case True
  with assms(2) show ?thesis
    by (simp add: runs_Inr [where x = "()" and w' = "disk_update (\<lambda>fs. put_file fs p f (Some b)) w"] save_blob_run)
next
  case False
  with assms(1) show ?thesis
    by (simp add: runs_Inl [where e = FileNotFoundError and w' = w] save_blob_run)
qed

lemma runs_unlink:
  assumes "file_at (disk w) p f = None \<Longrightarrow> E FileNotFoundError w"
    and "file_at (disk w) p f \<noteq> None \<Longrightarrow> runs (disk_update (\<lambda>fs. put_file fs p f None) w) (g ()) Q E"
  shows "runs w (io_bind (unlink p f) g) Q E"
proof (cases "file_at (disk w) p f = None")
  case True
  with assms(1) show ?thesis
    by (simp add: runs_Inl [where e = FileNotFoundError and w' = w] unlink_run)
next
  case False
  with assms(2) show ?thesis
    by (simp add: runs_Inr [where x = "()" and w' = "disk_update (\<lambda>fs. put_file fs p f None) w"] unlink_run)
qed

lemma runs_if:
  assumes "c \<Longrightarrow> runs w (io_bind a g) Q E" and "\<not> c \<Longrightarrow> runs w (io_bind b g) Q E"
  shows "runs w (io_bind (if c then a else b) g) Q E"
  using assms by (cases c) simp_all

lemma runs_case_option:
  assumes "v = None \<Longrightarrow> runs w (io_bind a g) Q E" and "\<And>x. v = Some x \<Longrightarrow> runs w (io_bind (b x) g) Q E"
  shows "runs w (io_bind (case v of None \<Rightarrow> a | Some x \<Rightarrow> b x) g) Q E"
  using assms by (cases v) simp_all

lemma runs_case_list:
  assumes "v = [] \<Longrightarrow> runs w (io_bind a g) Q E"
    and "\<And>x xs. v = x # xs \<Longrightarrow> runs w (io_bind (b x xs) g) Q E"
  shows "runs w (io_bind (case v of [] \<Rightarrow> a | x # xs \<Rightarrow> b x xs) g) Q E"
  using assms by (cases v) simp_all

lemma runs_case_prod:
  assumes "\<And>a b. v = (a, b) \<Longrightarrow> runs w (f a b) Q E"
  shows "runs w (case v of (a, b) \<Rightarrow> f a b) Q E"
  using assms by (cases v) simp

text \<open>The last statement of a body.\<close>

lemma runs_ret_final: "Q x w \<Longrightarrow> runs w (ret x) Q E"
  by (rule runs_final_Inr [OF ret_run])

lemma runs_raise_final: "E e w \<Longrightarrow> runs w (raise e) Q E"
  by (rule runs_final_Inl [OF raise_run])

lemma runs_fail_final: "E Failed (out_update (\<lambda>xs. xs @ [fail_marker]) w) \<Longrightarrow> runs w fail Q E"
  by (rule runs_final_Inl [OF fail_run])

lemma runs_send_final: "Q () (out_update (\<lambda>xs. xs @ [b]) w) \<Longrightarrow> runs w (send b) Q E"
  by (rule runs_final_Inr [OF send_run])

lemma runs_save_blob_final:
  assumes "\<not> path_ok (disk w) p \<Longrightarrow> E FileNotFoundError w"
    and "path_ok (disk w) p \<Longrightarrow> Q () (disk_update (\<lambda>fs. put_file fs p f (Some b)) w)"
  shows "runs w (save_blob p f b) Q E"
  using assms by (simp add: runs_def save_blob_run)

lemma runs_if_final:
  assumes "c \<Longrightarrow> runs w a Q E" and "\<not> c \<Longrightarrow> runs w b Q E"
  shows "runs w (if c then a else b) Q E"
  using assms by (cases c) simp_all

lemmas runs_rules = runs_assoc runs_ret runs_raise runs_fail runs_lift runs_or_fail runs_when_fail
  runs_when runs_except_ValueError_fail runs_send runs_recv runs_randombytes runs_now
  runs_path_exists runs_load_blob runs_save_blob runs_unlink runs_if runs_case_option
  runs_case_list runs_case_prod runs_ret_final runs_raise_final runs_fail_final runs_send_final
  runs_save_blob_final runs_if_final

subsection \<open>Files after a write\<close>

lemma path_ok_put_file [simp]: "path_ok (put_file fs p f v) q = path_ok fs q"
  by (simp add: path_ok_def put_file_def split: option.splits)

lemma file_at_put_file_same [simp]:
  "file_at (put_file fs p f v) p g = (if g = f \<and> path_ok fs p then v else file_at fs p g)"
  by (simp add: file_at_def put_file_def path_ok_def split: option.splits)

lemma file_at_put_file_other [simp]:
  "q \<noteq> p \<Longrightarrow> file_at (put_file fs p f v) q g = file_at fs q g"
  by (auto simp: file_at_def put_file_def split: option.splits)

lemma file_at_path_ok: "file_at fs p f \<noteq> None \<Longrightarrow> path_ok fs p"
  by (simp add: file_at_def path_ok_def split: if_splits option.splits)

lemma not_path_ok_file_at [simp]: "\<not> path_ok fs p \<Longrightarrow> file_at fs p f = None"
  by (simp add: file_at_def path_ok_def split: if_splits option.splits)

section \<open>Authentication, commit and undo: what they do to the disk\<close>


lemma hexlify_test_id: "hexlify test_id = test_hid"
  by code_simp

lemma auth_runs: "runs w (auth env hid alpha) (\<lambda>_ w'. disk w' = disk w) (\<lambda>_ w'. disk w' = disk w)"
  unfolding auth_def evaluate_or_fail_def
  apply (rule runs_rules | (simp; fail))+
  done

lemma auth_disk: "disk (snd (auth env hid alpha w)) = disk w"
  using auth_runs [of w env hid alpha] by (simp add: runs_def split: prod.splits sum.splits)

lemma runs_auth:
  assumes "\<And>e w'. disk w' = disk w \<Longrightarrow> auth env hid alpha w = (Inl e, w') \<Longrightarrow> E e w'"
    and "\<And>w'. disk w' = disk w \<Longrightarrow> auth env hid alpha w = (Inr (), w') \<Longrightarrow> runs w' (g ()) Q E"
  shows "runs w (io_bind (auth env hid alpha) g) Q E"
proof (rule runs_bind, rule runsI)
  fix e w' assume "auth env hid alpha w = (Inl e, w')"
  with auth_disk [of env hid alpha w] assms(1) [of w' e] show "E e w'" by simp
next
  fix x w' assume "auth env hid alpha w = (Inr x, w')"
  with auth_disk [of env hid alpha w] assms(2) [of w'] show "runs w' (g x) Q E" by simp
qed

lemma auth_succeeds:
  assumes "file_at (disk w) hid ''pub'' = Some pk" and "length pk = 32"
    and "file_at (disk w) hid ''key'' = Some (k0 # k1)" and "oprf_evaluate env k1 alpha \<noteq> None"
    and "sign_verify_detached env (recv_data 64 (inp w)) (map (rand_tape w) [rand_pos w ..< rand_pos w + 32]) pk"
  shows "fst (auth env hid alpha w) = Inr ()"
proof -
  have "runs w (auth env hid alpha) (\<lambda>_ _. True) (\<lambda>_ _. False)"
    unfolding auth_def evaluate_or_fail_def
    using assms
    apply -
    apply (rule runs_rules | (simp add: blob_bad_def; fail))+
    done
  then show ?thesis by (simp add: runs_def split: prod.splits sum.splits)
qed

lemma commit_effect:
  "runs w (commit_undo env msg ''new'' ''old'')
     (\<lambda>_ w'. disk w' = rotate_disk (hexlify (take 32 (drop 1 msg))) ''new'' ''old'' (disk w)
        \<and> (\<forall>f \<in> {''key'', ''rules'', ''pub'', ''new'', ''rules.new'', ''pub.new''}.
              file_at (disk w) (hexlify (take 32 (drop 1 msg))) f \<noteq> None))
     (\<lambda>e w'. disk w' = disk w)"
  unfolding commit_undo_def pop_def Let_def prod.case
  apply (rule runs_rules runs_auth | (simp add: rotate_disk_def; fail))+
  done

lemma undo_effect:
  "runs w (commit_undo env msg ''old'' ''new'')
     (\<lambda>_ w'. disk w' = rotate_disk (hexlify (take 32 (drop 1 msg))) ''old'' ''new'' (disk w)
        \<and> (\<forall>f \<in> {''key'', ''rules'', ''pub'', ''old'', ''rules.old'', ''pub.old''}.
              file_at (disk w) (hexlify (take 32 (drop 1 msg))) f \<noteq> None))
     (\<lambda>e w'. disk w' = disk w)"
  unfolding commit_undo_def pop_def Let_def prod.case
  apply (rule runs_rules runs_auth | (simp add: rotate_disk_def; fail))+
  done


lemma commit_succeeds:
  assumes "length msg \<le> 65"
    and "fst (auth env (hexlify (take 32 (drop 1 msg))) (take 32 (drop 32 (drop 1 msg))) w) = Inr ()"
    and "file_at (disk w) (hexlify (take 32 (drop 1 msg))) ''rules.new'' = Some nr" and "length nr = RULE_SIZE env"
    and "file_at (disk w) (hexlify (take 32 (drop 1 msg))) ''rules'' = Some cr" and "length cr = RULE_SIZE env"
    and "file_at (disk w) (hexlify (take 32 (drop 1 msg))) ''pub.new'' = Some np" and "length np = 32"
    and "file_at (disk w) (hexlify (take 32 (drop 1 msg))) ''pub'' = Some cp" and "length cp = 32"
    and "file_at (disk w) (hexlify (take 32 (drop 1 msg))) ''new'' = Some nk" and "length nk = 33"
    and "file_at (disk w) (hexlify (take 32 (drop 1 msg))) ''key'' = Some ck" and "length ck = 33"
  shows "fst (commit_undo env msg ''new'' ''old'' w) = Inr ()"
proof -
  have p: "path_ok (disk w) (hexlify (take 32 (drop 1 msg)))"
    using assms(3) file_at_path_ok [of "disk w" "hexlify (take 32 (drop 1 msg))" "''rules.new''"] by simp
  have "runs w (commit_undo env msg ''new'' ''old'') (\<lambda>_ _. True) (\<lambda>_ _. False)"
    unfolding commit_undo_def pop_def Let_def prod.case
    using assms p
    apply -
    apply (rule runs_rules runs_auth | (simp add: blob_bad_def; fail))+
    done
  then show ?thesis by (simp add: runs_def split: prod.splits sum.splits)
qed

lemma undo_succeeds:
  assumes "length msg \<le> 65"
    and "fst (auth env (hexlify (take 32 (drop 1 msg))) (take 32 (drop 32 (drop 1 msg))) w) = Inr ()"
    and "file_at (disk w) (hexlify (take 32 (drop 1 msg))) ''rules.old'' = Some nr" and "length nr = RULE_SIZE env"
    and "file_at (disk w) (hexlify (take 32 (drop 1 msg))) ''rules'' = Some cr" and "length cr = RULE_SIZE env"
    and "file_at (disk w) (hexlify (take 32 (drop 1 msg))) ''pub.old'' = Some np" and "length np = 32"
    and "file_at (disk w) (hexlify (take 32 (drop 1 msg))) ''pub'' = Some cp" and "length cp = 32"
    and "file_at (disk w) (hexlify (take 32 (drop 1 msg))) ''old'' = Some nk" and "length nk = 33"
    and "file_at (disk w) (hexlify (take 32 (drop 1 msg))) ''key'' = Some ck" and "length ck = 33"
  shows "fst (commit_undo env msg ''old'' ''new'' w) = Inr ()"
proof -
  have p: "path_ok (disk w) (hexlify (take 32 (drop 1 msg)))"
    using assms(3) file_at_path_ok [of "disk w" "hexlify (take 32 (drop 1 msg))" "''rules.old''"] by simp
  have "runs w (commit_undo env msg ''old'' ''new'') (\<lambda>_ _. True) (\<lambda>_ _. False)"
    unfolding commit_undo_def pop_def Let_def prod.case
    using assms p
    apply -
    apply (rule runs_rules runs_auth | (simp add: blob_bad_def; fail))+
    done
  then show ?thesis by (simp add: runs_def split: prod.splits sum.splits)
qed

lemma commit_result:
  assumes "fst (commit_undo env msg ''new'' ''old'' w) = Inr ()"
  shows "disk (snd (commit_undo env msg ''new'' ''old'' w))
           = rotate_disk (hexlify (take 32 (drop 1 msg))) ''new'' ''old'' (disk w)"
    and "\<forall>f \<in> {''key'', ''rules'', ''pub'', ''new'', ''rules.new'', ''pub.new''}.
              file_at (disk w) (hexlify (take 32 (drop 1 msg))) f \<noteq> None"
  using assms commit_effect [of w env msg]
  by (simp_all add: runs_def split: prod.splits sum.splits)

lemma undo_result:
  assumes "fst (commit_undo env msg ''old'' ''new'' w) = Inr ()"
  shows "disk (snd (commit_undo env msg ''old'' ''new'' w))
           = rotate_disk (hexlify (take 32 (drop 1 msg))) ''old'' ''new'' (disk w)"
    and "\<forall>f \<in> {''key'', ''rules'', ''pub'', ''old'', ''rules.old'', ''pub.old''}.
              file_at (disk w) (hexlify (take 32 (drop 1 msg))) f \<noteq> None"
  using assms undo_effect [of w env msg]
  by (simp_all add: runs_def split: prod.splits sum.splits)

lemma commit_error_disk:
  assumes "fst (commit_undo env msg ''new'' ''old'' w) = Inl e"
  shows "disk (snd (commit_undo env msg ''new'' ''old'' w)) = disk w"
  using assms commit_effect [of w env msg]
  by (simp add: runs_def split: prod.splits sum.splits)

lemma undo_error_disk:
  assumes "fst (commit_undo env msg ''old'' ''new'' w) = Inl e"
  shows "disk (snd (commit_undo env msg ''old'' ''new'' w)) = disk w"
  using assms undo_effect [of w env msg]
  by (simp add: runs_def split: prod.splits sum.splits)

lemma file_at_rotate_commit:
  assumes "path_ok fs p"
  shows "file_at (rotate_disk p ''new'' ''old'' fs) p g =
     (if g = ''new'' \<or> g = ''rules.new'' \<or> g = ''pub.new'' then None
      else if g = ''key'' then file_at fs p ''new''
      else if g = ''rules'' then file_at fs p ''rules.new''
      else if g = ''pub'' then file_at fs p ''pub.new''
      else if g = ''old'' then file_at fs p ''key''
      else if g = ''rules.old'' then file_at fs p ''rules''
      else if g = ''pub.old'' then file_at fs p ''pub''
      else file_at fs p g)"
  using assms by (simp add: rotate_disk_def)

lemma file_at_rotate_undo:
  assumes "path_ok fs p"
  shows "file_at (rotate_disk p ''old'' ''new'' fs) p g =
     (if g = ''old'' \<or> g = ''rules.old'' \<or> g = ''pub.old'' then None
      else if g = ''key'' then file_at fs p ''old''
      else if g = ''rules'' then file_at fs p ''rules.old''
      else if g = ''pub'' then file_at fs p ''pub.old''
      else if g = ''new'' then file_at fs p ''key''
      else if g = ''rules.new'' then file_at fs p ''rules''
      else if g = ''pub.new'' then file_at fs p ''pub''
      else file_at fs p g)"
  using assms by (simp add: rotate_disk_def)

lemma path_ok_rotate [simp]: "path_ok (rotate_disk p new old fs) q = path_ok fs q"
  by (simp add: rotate_disk_def)


subsection \<open>The files of a directory as one map\<close>

lemma put_file_set_files: "path_ok fs p \<Longrightarrow> put_file fs p f v = set_files fs p ((files fs p)(f := v))"
  by (auto simp: path_ok_def put_file_def set_files_def files_def split: option.splits)

lemma files_set_files [simp]: "files (set_files fs p F) p = F"
  by (simp add: files_def set_files_def)

lemma path_ok_set_files [simp]: "path_ok fs p \<Longrightarrow> path_ok (set_files fs p F) p"
  by (simp add: path_ok_def set_files_def)

lemma set_files_set_files [simp]: "set_files (set_files fs p F) p G = set_files fs p G"
  by (simp add: set_files_def)

lemma set_files_files: "path_ok fs p \<Longrightarrow> set_files fs p (files fs p) = fs"
  by (auto simp: path_ok_def set_files_def files_def map_upd_triv split: option.splits)

lemma file_at_files: "path_ok fs p \<Longrightarrow> file_at fs p g = files fs p g"
  by (auto simp: path_ok_def file_at_def files_def split: option.splits)

lemma fold_put_file_set_files:
  "path_ok fs p \<Longrightarrow> \<exists>F. fold (\<lambda>(f, v) a. put_file a p f v) xs fs = set_files fs p F"
proof (induction xs arbitrary: fs)
  case Nil
  then have "fs = set_files fs p (files fs p)" by (simp add: set_files_files)
  then show ?case by auto
next
  case (Cons x xs)
  obtain f v where x: "x = (f, v)" by (cases x)
  from Cons.prems have "path_ok (put_file fs p f v) p" by simp
  from Cons.IH [OF this] obtain F
    where "fold (\<lambda>(f, v) a. put_file a p f v) xs (put_file fs p f v) = set_files (put_file fs p f v) p F"
    by blast
  with Cons.prems x have "fold (\<lambda>(f, v) a. put_file a p f v) (x # xs) fs = set_files fs p F"
    by (simp add: put_file_set_files)
  then show ?case by blast
qed

lemma rotate_disk_set_files: "path_ok fs p \<Longrightarrow> \<exists>F. rotate_disk p new old fs = set_files fs p F"
  unfolding rotate_disk_def by (rule fold_put_file_set_files)

lemma set_files_eqI:
  assumes p: "path_ok fs p" and s: "fs' = set_files fs p F"
    and e: "\<And>g. file_at fs' p g = file_at fs p g"
  shows "fs' = fs"
proof -
  have p': "path_ok fs' p" using p s by simp
  have "F = files fs p"
  proof (rule ext)
    fix g
    have "F g = files fs' p g" using s by simp
    also have "\<dots> = file_at fs' p g" using p' by (simp add: file_at_files)
    also have "\<dots> = files fs p g" using e [of g] p by (simp add: file_at_files)
    finally show "F g = files fs p g" .
  qed
  with s p show ?thesis by (simp add: set_files_files)
qed

lemma undo_commit_disk:
  assumes p: "path_ok fs p"
    and o: "file_at fs p ''old'' = None" "file_at fs p ''rules.old'' = None" "file_at fs p ''pub.old'' = None"
  shows "rotate_disk p ''old'' ''new'' (rotate_disk p ''new'' ''old'' fs) = fs"
proof -
  from rotate_disk_set_files [OF p] obtain F1 where f1: "rotate_disk p ''new'' ''old'' fs = set_files fs p F1"
    by blast
  have p1: "path_ok (rotate_disk p ''new'' ''old'' fs) p" using p by simp
  from rotate_disk_set_files [OF p1] obtain F2
    where "rotate_disk p ''old'' ''new'' (rotate_disk p ''new'' ''old'' fs)
             = set_files (rotate_disk p ''new'' ''old'' fs) p F2"
    by blast
  with f1 have s: "rotate_disk p ''old'' ''new'' (rotate_disk p ''new'' ''old'' fs) = set_files fs p F2"
    by simp
  show ?thesis
  proof (rule set_files_eqI [OF p s])
    fix g
    show "file_at (rotate_disk p ''old'' ''new'' (rotate_disk p ''new'' ''old'' fs)) p g = file_at fs p g"
      using o by (simp add: file_at_rotate_undo [OF p1] file_at_rotate_commit [OF p])
  qed
qed

section \<open>Facts about the test data\<close>


subsection \<open>The test account\<close>

lemma test_commit_hid: "hexlify (take 32 (drop 1 test_commit_msg)) = test_hid"
  unfolding test_commit_msg_def test_id_def test_hid_def by code_simp

lemma test_undo_hid: "hexlify (take 32 (drop 1 test_undo_msg)) = test_hid"
  unfolding test_undo_msg_def test_id_def test_hid_def by code_simp

lemmas test_hids = test_commit_hid test_undo_hid test_commit_hid [simplified] test_undo_hid [simplified]

lemma test_hid_nonempty: "test_hid \<noteq> []"
  by (simp add: test_hid_def)

lemma test_disk_files:
  "file_at test_disk test_hid ''key'' = Some (replicate 33 1)"
  "file_at test_disk test_hid ''rules'' = Some [1, 1]"
  "file_at test_disk test_hid ''pub'' = Some (replicate 32 1)"
  "file_at test_disk test_hid ''new'' = Some (replicate 33 2)"
  "file_at test_disk test_hid ''rules.new'' = Some [2, 2]"
  "file_at test_disk test_hid ''pub.new'' = Some (replicate 32 2)"
  "file_at test_disk test_hid ''old'' = None"
  "file_at test_disk test_hid ''rules.old'' = None"
  "file_at test_disk test_hid ''pub.old'' = None"
  by (simp_all add: file_at_def test_disk_def test_dir_def test_hid_nonempty)

lemma test_world_simps [simp]:
  "disk (test_world fs cs) = fs" "inp (test_world fs cs) = cs" "out (test_world fs cs) = []"
  "rand_pos (test_world fs cs) = 0" "rand_tape (test_world fs cs) = (\<lambda>i. 5)" "clock (test_world fs cs) = 1000"
  by (simp_all add: test_world_def)

lemma test_env_simps [simp]:
  "RULE_SIZE test_env = 2"
  "oprf_evaluate test_env k a = (if length k = 32 \<and> length a = 32 then Some (map (\<lambda>(x, y). x XOR y) (zip k a)) else None)"
  "sign_verify_detached test_env sig m pk = (length sig = 64 \<and> length pk = 32)"
  by (simp_all add: test_env_def)

lemma replicate_Suc_33: "replicate 33 (x::byte) = x # replicate 32 x"
  by (simp add: numeral_eq_Suc)

lemma test_auth_commit:
  "fst (auth test_env test_hid (take 32 (drop 32 (drop 1 test_commit_msg))) (test_world test_disk [replicate 64 0])) = Inr ()"
  by (rule auth_succeeds [where pk = "replicate 32 1" and ?k0.0 = 1 and ?k1.0 = "replicate 32 1"])
     (simp_all add: test_disk_files replicate_Suc_33 [symmetric] recv_data_def test_commit_msg_def test_id_def)

lemma test_commit_ok:
  "fst (commit_undo test_env test_commit_msg ''new'' ''old'' (test_world test_disk [replicate 64 0])) = Inr ()"
  by (rule commit_succeeds [where nr = "[2, 2]" and cr = "[1, 1]" and np = "replicate 32 2"
        and cp = "replicate 32 1" and nk = "replicate 33 2" and ck = "replicate 33 1"])
     (simp_all add: test_hids test_disk_files test_auth_commit [simplified], simp add: test_commit_msg_def test_id_def)

section \<open>Commit, undo and their atomicity\<close>

lemma test_after_commit_disk:
  "disk test_after_commit = rotate_disk test_hid ''new'' ''old'' test_disk"
  using commit_result(1) [OF test_commit_ok] by (simp add: test_after_commit_def test_hids)

lemma test_disk_path_ok: "path_ok test_disk test_hid"
  by (simp add: path_ok_def test_disk_def test_hid_nonempty)

lemma test_auth_undo:
  "fst (auth test_env test_hid (take 32 (drop 32 (drop 1 test_undo_msg))) test_after_commit) = Inr ()"
  by (rule auth_succeeds [where pk = "replicate 32 2" and ?k0.0 = 2 and ?k1.0 = "replicate 32 2"])
     (simp_all add: test_after_commit_disk file_at_rotate_commit [OF test_disk_path_ok] test_disk_files
        replicate_Suc_33 [symmetric] recv_data_def test_undo_msg_def test_id_def,
      simp_all add: test_after_commit_def)

lemma test_undo_ok:
  "fst (commit_undo test_env test_undo_msg ''old'' ''new'' test_after_commit) = Inr ()"
  by (rule undo_succeeds [where nr = "[1, 1]" and cr = "[2, 2]" and np = "replicate 32 1"
        and cp = "replicate 32 2" and nk = "replicate 33 1" and ck = "replicate 33 2"])
     (simp_all add: test_hids test_auth_undo [simplified] test_after_commit_disk
        file_at_rotate_commit [OF test_disk_path_ok] test_disk_files,
      simp add: test_undo_msg_def test_id_def)

text \<open>
  C5. A successful COMMIT (\<^verbatim>\<open>commit_undo(conn, data, 'new', 'old')\<close>) found the live triple
  \<open>key\<close>, \<open>rules\<close>, \<open>pub\<close> and the shadow triple \<open>new\<close>, \<open>rules.new\<close>, \<open>pub.new\<close> all
  present; afterwards the live triple is the prior shadow triple, the \<open>.old\<close> triple is
  the prior live triple, and the shadow files are absent.
\<close>

theorem commit_promotes_shadow:
  assumes "fst (commit_undo env msg ''new'' ''old'' w) = Inr ()"
  shows "let hid = hexlify (take 32 (drop 1 msg));
             fs = disk w;
             fs' = disk (snd (commit_undo env msg ''new'' ''old'' w))
         in file_at fs' hid ''key'' = file_at fs hid ''new''
          \<and> file_at fs' hid ''rules'' = file_at fs hid ''rules.new''
          \<and> file_at fs' hid ''pub'' = file_at fs hid ''pub.new''
          \<and> file_at fs' hid ''old'' = file_at fs hid ''key''
          \<and> file_at fs' hid ''rules.old'' = file_at fs hid ''rules''
          \<and> file_at fs' hid ''pub.old'' = file_at fs hid ''pub''
          \<and> file_at fs' hid ''new'' = None
          \<and> file_at fs' hid ''rules.new'' = None
          \<and> file_at fs' hid ''pub.new'' = None
          \<and> file_at fs hid ''key'' \<noteq> None \<and> file_at fs hid ''rules'' \<noteq> None
          \<and> file_at fs hid ''pub'' \<noteq> None \<and> file_at fs hid ''new'' \<noteq> None
          \<and> file_at fs hid ''rules.new'' \<noteq> None \<and> file_at fs hid ''pub.new'' \<noteq> None"
proof -
  define hid where "hid = hexlify (take 32 (drop 1 msg))"
  note r = commit_result [OF assms, folded hid_def]
  from r(2) have k: "file_at (disk w) hid ''key'' \<noteq> None" by simp
  have p: "path_ok (disk w) hid"
    by (rule file_at_path_ok [OF k])
  show ?thesis
    unfolding Let_def hid_def [symmetric] using r(2) by (simp add: r(1) file_at_rotate_commit [OF p])
qed

theorem commit_promotes_shadow_witness:
  "fst (commit_undo test_env test_commit_msg ''new'' ''old'' (test_world test_disk [replicate 64 0])) = Inr ()
   \<and> file_at (disk (snd (commit_undo test_env test_commit_msg ''new'' ''old''
                           (test_world test_disk [replicate 64 0])))) test_hid ''key'' = Some (replicate 33 2)
   \<and> file_at (disk (snd (commit_undo test_env test_commit_msg ''new'' ''old''
                           (test_world test_disk [replicate 64 0])))) test_hid ''old'' = Some (replicate 33 1)
   \<and> file_at (disk (snd (commit_undo test_env test_commit_msg ''new'' ''old''
                           (test_world test_disk [replicate 64 0])))) test_hid ''new'' = None"
  using commit_promotes_shadow [OF test_commit_ok] test_commit_ok
  by (simp add: Let_def test_hids test_disk_files)

text \<open>
  C10. COMMIT and UNDO load the six blobs they need (\<open>rules.<new>\<close>, \<open>rules\<close>,
  \<open>pub.<new>\<close>, \<open>pub\<close>, \<open><new>\<close>, \<open>key\<close>) before they write anything: when one of the six is
  absent the operation ends in an error and the disk is as it was.
\<close>

theorem commit_undo_atomic:
  assumes "new = ''new'' \<and> old = ''old'' \<or> new = ''old'' \<and> old = ''new''"
    and "f \<in> {''rules.'' @ new, ''rules'', ''pub.'' @ new, ''pub'', new, ''key''}"
    and "file_at (disk w) (hexlify (take 32 (drop 1 msg))) f = None"
  shows "(\<exists>e. fst (commit_undo env msg new old w) = Inl e)
       \<and> disk (snd (commit_undo env msg new old w)) = disk w"
proof -
  have n: "fst (commit_undo env msg new old w) \<noteq> Inr ()"
    using assms commit_result(2) [of env msg w] undo_result(2) [of env msg w]
    by (auto simp del: One_nat_def)
  then obtain e where e: "fst (commit_undo env msg new old w) = Inl e"
    by (cases "fst (commit_undo env msg new old w)") auto
  with assms(1) commit_error_disk [of env msg w e] undo_error_disk [of env msg w e]
  have "disk (snd (commit_undo env msg new old w)) = disk w" by auto
  with e show ?thesis by blast
qed

theorem commit_undo_atomic_witness:
  "(\<exists>e. fst (commit_undo test_env test_commit_msg ''new'' ''old'' (test_world test_disk_live [replicate 64 0])) = Inl e)
   \<and> disk (snd (commit_undo test_env test_commit_msg ''new'' ''old'' (test_world test_disk_live [replicate 64 0])))
       = test_disk_live"
  using commit_undo_atomic [of "''new''" "''old''" "''pub.new''" "test_world test_disk_live [replicate 64 0]"
      test_commit_msg test_env]
  by (simp add: test_hids file_at_def test_disk_live_def test_hid_nonempty)

text \<open>
  C3 (as the code has it). UNDO right after a successful COMMIT, on the same account:
  every file of the account other than the \<open>.old\<close> triple is as it was before the COMMIT,
  the live triple and the shadow triple included; the \<open>.old\<close> triple is absent; the shadow
  files are present again, holding the triple that was undone. When the account had no
  \<open>.old\<close> files before the COMMIT, the whole disk equals the disk before the COMMIT.
\<close>

theorem undo_after_commit:
  assumes c: "fst (commit_undo env msg ''new'' ''old'' w) = Inr ()"
    and d: "disk w2 = disk (snd (commit_undo env msg ''new'' ''old'' w))"
    and i: "take 32 (drop 1 msg2) = take 32 (drop 1 msg)"
    and u: "fst (commit_undo env msg2 ''old'' ''new'' w2) = Inr ()"
  shows "let hid = hexlify (take 32 (drop 1 msg));
             fs = disk w;
             fs3 = disk (snd (commit_undo env msg2 ''old'' ''new'' w2))
         in (\<forall>f. f \<notin> {''old'', ''rules.old'', ''pub.old''} \<longrightarrow> file_at fs3 hid f = file_at fs hid f)
          \<and> file_at fs3 hid ''old'' = None
          \<and> file_at fs3 hid ''rules.old'' = None
          \<and> file_at fs3 hid ''pub.old'' = None
          \<and> file_at fs3 hid ''new'' \<noteq> None
          \<and> file_at fs3 hid ''rules.new'' \<noteq> None
          \<and> file_at fs3 hid ''pub.new'' \<noteq> None
          \<and> (file_at fs hid ''old'' = None \<and> file_at fs hid ''rules.old'' = None
               \<and> file_at fs hid ''pub.old'' = None \<longrightarrow> fs3 = fs)"
proof -
  define hid where "hid = hexlify (take 32 (drop 1 msg))"
  note r = commit_result [OF c, folded hid_def]
  from r(2) have k: "file_at (disk w) hid ''key'' \<noteq> None" by simp
  have p: "path_ok (disk w) hid"
    by (rule file_at_path_ok [OF k])
  have p1: "path_ok (rotate_disk hid ''new'' ''old'' (disk w)) hid"
    using p by simp
  have d3: "disk (snd (commit_undo env msg2 ''old'' ''new'' w2))
      = rotate_disk hid ''old'' ''new'' (rotate_disk hid ''new'' ''old'' (disk w))"
    using undo_result(1) [OF u] d i r(1) by (simp add: hid_def)
  show ?thesis
    unfolding Let_def hid_def [symmetric] d3
    using r(2) undo_commit_disk [OF p]
    by (simp add: file_at_rotate_undo [OF p1] file_at_rotate_commit [OF p])
qed

theorem undo_after_commit_witness:
  "file_at (disk (snd (commit_undo test_env test_undo_msg ''old'' ''new'' test_after_commit))) test_hid ''key''
     = Some (replicate 33 1)
   \<and> file_at (disk (snd (commit_undo test_env test_undo_msg ''old'' ''new'' test_after_commit))) test_hid ''old''
     = None
   \<and> disk (snd (commit_undo test_env test_undo_msg ''old'' ''new'' test_after_commit)) = test_disk"
proof -
  have d: "disk test_after_commit
      = disk (snd (commit_undo test_env test_commit_msg ''new'' ''old'' (test_world test_disk [replicate 64 0])))"
    by (simp add: test_after_commit_def)
  have i: "take 32 (drop 1 test_undo_msg) = take 32 (drop 1 test_commit_msg)"
    by (simp add: test_undo_msg_def test_commit_msg_def)
  from undo_after_commit [OF test_commit_ok d i test_undo_ok]
  show ?thesis
    by (simp add: Let_def test_hids test_disk_files)
qed

text \<open>
  C3 as stated fails: after COMMIT and then UNDO on the test account the shadow file
  \<open>new\<close> is present (it holds the key that was undone), so "no shadow files are present"
  does not hold.
\<close>

theorem undo_after_commit_counterexample:
  "fst (commit_undo test_env test_commit_msg ''new'' ''old'' (test_world test_disk [replicate 64 0])) = Inr ()
   \<and> fst (commit_undo test_env test_undo_msg ''old'' ''new'' test_after_commit) = Inr ()
   \<and> file_at (disk (snd (commit_undo test_env test_undo_msg ''old'' ''new'' test_after_commit))) test_hid ''new''
       = Some (replicate 33 2)"
proof -
  have p1: "path_ok (rotate_disk test_hid ''new'' ''old'' test_disk) test_hid"
    using test_disk_path_ok by simp
  have "file_at (disk (snd (commit_undo test_env test_undo_msg ''old'' ''new'' test_after_commit))) test_hid ''new''
       = Some (replicate 33 2)"
    using undo_result(1) [OF test_undo_ok]
    by (simp add: test_hids test_after_commit_disk file_at_rotate_undo [OF p1]
        file_at_rotate_commit [OF test_disk_path_ok] test_disk_files)
  with test_commit_ok test_undo_ok show ?thesis by simp
qed

section \<open>Running a function body on known input\<close>


lemma io_bind_run: "io_bind m g w = (case m w of (Inl e, w') \<Rightarrow> (Inl e, w') | (Inr x, w') \<Rightarrow> g x w')"
  by (simp add: io_bind_def)

lemma io_when_run: "io_when c m w = (if c then m w else (Inr (), w))"
  by (simp add: io_when_def ret_def)

lemma lift_run: "lift r w = (case r of Inl e \<Rightarrow> (Inl e, w) | Inr x \<Rightarrow> (Inr x, w))"
  by (simp add: lift_def raise_def ret_def split: sum.splits)

lemma or_fail_run: "or_fail v w = (case v of None \<Rightarrow> fail w | Some x \<Rightarrow> (Inr x, w))"
  by (simp add: or_fail_def ret_def split: option.splits)

lemmas run_simps = io_bind_run io_when_run lift_run or_fail_run ret_run raise_run fail_run send_run
  recv_run randombytes_run now_timestamp_run path_exists_run load_blob_run save_blob_run unlink_run

lemma xor_zero_eq: "(x XOR y = 0) = (x = (y::byte))"
proof
  assume h: "x XOR y = 0"
  have "y = (x XOR x) XOR y" by simp
  also have "\<dots> = x XOR (x XOR y)" by (simp only: xor.assoc)
  also have "\<dots> = x" by (simp add: h)
  finally show "x = y" by simp
qed simp

lemma xor_sum_zero_iff:
  "length xs = length ys \<Longrightarrow>
     (sum_list (map (\<lambda>(m, i). unat (m XOR i)) (zip xs ys)) = 0) = (xs = (ys :: byte list))"
proof (induction xs ys rule: list_induct2)
  case Nil
  then show ?case by simp
next
  case (Cons x xs y ys)
  have "(unat (x XOR y) = 0) = (x = y)"
    by (simp add: unat_eq_0 xor_zero_eq)
  with Cons show ?case by simp
qed

lemma xor_sum_self [simp]: "sum_list (map (\<lambda>(m, i). unat (m XOR i)) (zip xs xs)) = 0"
  by (induction xs) simp_all

lemma xor_zip_self [simp]:
  "(\<exists>n\<in>set (zip xs xs). 0 < (case n of (m, i) \<Rightarrow> unat (m XOR i))) = False"
  by (auto simp: zip_same)

lemma recv_exact: "length c = n \<Longrightarrow> recv_data n (c # cs) = c \<and> recv_rest n (c # cs) = cs"
  by (simp add: recv_data_def recv_rest_def)

lemma pop_byte_Cons: "pop_byte (b # bs) = Inr (unat b, bs)"
  by (simp add: pop_byte_def)

lemma verify_challenge_run:
  assumes i: "inp w = (n # k # tsb @ sig) # req_type # payload # solution # rest"
    and l: "length tsb = 8" "length sig = 32" "length req_type = 1"
      "length payload = (if req_type = [READ env] then 32 else 64)"
    and key: "file_at (disk w) [] ''key'' = Some key" "length key = 32"
    and mac: "generichash env key (req_type @ payload @ n # k # tsb) = sig"
    and tmo: "RL_Timeouts (unat n, unat k) = Some tmo"
    and sol: "length solution = equihash_solsize env (unat n) (unat k)"
  shows "verify_challenge env w =
     (if clock w - real_of_int (int tmo + rl_gracetime env) > real (le_value tsb)
      then (Inl Failed, w\<lparr>inp := solution # rest, out := out w @ [fail_marker]\<rparr>)
      else if equihash_verify env (unat n) (unat k) ((n # k # tsb @ sig) @ req_type @ payload) solution
      then handler env (req_type @ payload) (w\<lparr>inp := rest\<rparr>)
      else (Inl Failed, w\<lparr>inp := rest, out := out w @ [fail_marker]\<rparr>))"
proof (cases w)
  case (fields d cs os rt rp c)
  have "key \<noteq> []" using key(2) by auto
  then show ?thesis
    unfolding verify_challenge_def
    using assms fields
    by (cases "req_type = [READ env]")
       (simp_all add: run_simps Let_def pop_def pop_byte_Cons unpack_uint_def truthy_def blob_bad_def
          recv_exact xor_sum_zero_iff)
qed

section \<open>The proof-of-work check\<close>

lemma test_verify_facts:
  "length test_tsb = 8" "le_value test_tsb = 1000" "length test_req_payload = 64"
  "file_at test_disk [] ''key'' = Some (replicate 32 8)"
  "RL_Timeouts (60, 4) = Some (Suc 0)"
  "generichash test_env key data = replicate 32 7"
  "equihash_solsize test_env a b = 1"
  "rl_gracetime test_env = 10"
  "READ test_env = 51"
  by (simp_all add: test_tsb_def test_req_payload_def test_id_def file_at_def test_disk_def
      RL_Timeouts_def Difficulties_def test_env_def)

lemma test_verify_run:
  assumes "length solution = 1"
  shows "verify_challenge test_env (test_verify_world now solution) =
     (if now - real_of_int (int 1 + 10) > real 1000
      then (Inl Failed, (test_verify_world now solution)\<lparr>inp := [solution], out := [fail_marker]\<rparr>)
      else if equihash_verify test_env 60 4 ((60 # 4 # test_tsb @ replicate 32 7) @ [102] @ test_req_payload) solution
      then handler test_env ([102] @ test_req_payload) ((test_verify_world now solution)\<lparr>inp := []\<rparr>)
      else (Inl Failed, (test_verify_world now solution)\<lparr>inp := [], out := [fail_marker]\<rparr>))"
  using verify_challenge_run [of "test_verify_world now solution" 60 4 test_tsb "replicate 32 7" "[102]"
      test_req_payload solution "[]" test_env "replicate 32 8" 1] assms
  by (simp add: test_verify_facts test_verify_world_def)

text \<open>
  C8. For a request that arrives well framed with a valid MAC, a ladder entry for its
  \<open>(n, k)\<close> and a solution that verifies: CHALLENGE_VERIFY fails the connection, before it
  reads the solution, exactly when \<open>now - ts > timeout[(n, k)] + rl_gracetime\<close>; otherwise
  (also when the two are equal) the request goes to the handler.
\<close>

theorem stale_challenge_rejected:
  assumes "inp w = (n # k # tsb @ sig) # req_type # payload # solution # rest"
    and "length tsb = 8" and "length sig = 32" and "length req_type = 1"
    and "length payload = (if req_type = [READ env] then 32 else 64)"
    and "file_at (disk w) [] ''key'' = Some key" and "length key = 32"
    and "generichash env key (req_type @ payload @ n # k # tsb) = sig"
    and "RL_Timeouts (unat n, unat k) = Some tmo"
    and "length solution = equihash_solsize env (unat n) (unat k)"
    and "equihash_verify env (unat n) (unat k) ((n # k # tsb @ sig) @ req_type @ payload) solution"
  shows "(clock w - real (le_value tsb) > real_of_int (int tmo + rl_gracetime env) \<longrightarrow>
            verify_challenge env w = (Inl Failed, w\<lparr>inp := solution # rest, out := out w @ [fail_marker]\<rparr>))
       \<and> (clock w - real (le_value tsb) \<le> real_of_int (int tmo + rl_gracetime env) \<longrightarrow>
            verify_challenge env w = handler env (req_type @ payload) (w\<lparr>inp := rest\<rparr>))"
proof -
  have s: "(clock w - real_of_int (int tmo + rl_gracetime env) > real (le_value tsb))
         = (clock w - real (le_value tsb) > real_of_int (int tmo + rl_gracetime env))"
    by linarith
  show ?thesis
    using verify_challenge_run [OF assms(1-10)] assms(11) unfolding s by auto
qed

theorem stale_challenge_rejected_witness:
  "verify_challenge test_env (test_verify_world 1011 [107])
     = handler test_env ([102] @ test_req_payload) ((test_verify_world 1011 [107])\<lparr>inp := []\<rparr>)
   \<and> verify_challenge test_env (test_verify_world 1012 [107])
     = (Inl Failed, (test_verify_world 1012 [107])\<lparr>inp := [[107]], out := [fail_marker]\<rparr>)"
proof -
  have v: "equihash_verify test_env (unat (60 :: byte)) (unat (4 :: byte))
             ((60 # 4 # test_tsb @ replicate 32 7) @ [102] @ test_req_payload) [107]"
    by (simp add: test_env_def test_verify_facts)
  have a: "verify_challenge test_env (test_verify_world 1011 [107])
     = handler test_env ([102] @ test_req_payload) ((test_verify_world 1011 [107])\<lparr>inp := []\<rparr>)"
    using stale_challenge_rejected [of "test_verify_world 1011 [107]" 60 4 test_tsb "replicate 32 7" "[102]"
        test_req_payload "[107]" "[]" test_env "replicate 32 8" 1] v
    by (simp add: test_verify_facts test_verify_world_def)
  have b: "verify_challenge test_env (test_verify_world 1012 [107])
     = (Inl Failed, (test_verify_world 1012 [107])\<lparr>inp := [[107]], out := [fail_marker]\<rparr>)"
    using stale_challenge_rejected [of "test_verify_world 1012 [107]" 60 4 test_tsb "replicate 32 7" "[102]"
        test_req_payload "[107]" "[]" test_env "replicate 32 8" 1] v
    by (simp add: test_verify_facts test_verify_world_def)
  from a b show ?thesis by simp
qed

text \<open>
  C4 (as the code has it). For a request that arrives well framed with a valid MAC and is
  not stale, the solution is checked with \<^verbatim>\<open>equihash.verify(n, k, seed, solution)\<close> where the
  seed is everything the first read returned, the 42 bytes \<open>n \<parallel> k \<parallel> ts[8] \<parallel> sig[32]\<close>,
  followed by the request; the request goes to the handler exactly when the solution
  verifies against that seed, and the connection fails otherwise.
\<close>

theorem solution_checked_against_seed:
  assumes "inp w = (n # k # tsb @ sig) # req_type # payload # solution # rest"
    and "length tsb = 8" and "length sig = 32" and "length req_type = 1"
    and "length payload = (if req_type = [READ env] then 32 else 64)"
    and "file_at (disk w) [] ''key'' = Some key" and "length key = 32"
    and "generichash env key (req_type @ payload @ n # k # tsb) = sig"
    and "RL_Timeouts (unat n, unat k) = Some tmo"
    and "length solution = equihash_solsize env (unat n) (unat k)"
    and "clock w - real (le_value tsb) \<le> real_of_int (int tmo + rl_gracetime env)"
  shows "verify_challenge env w =
     (if equihash_verify env (unat n) (unat k) ((n # k # tsb @ sig) @ req_type @ payload) solution
      then handler env (req_type @ payload) (w\<lparr>inp := rest\<rparr>)
      else (Inl Failed, w\<lparr>inp := rest, out := out w @ [fail_marker]\<rparr>))"
proof -
  have s: "\<not> clock w - real_of_int (int tmo + rl_gracetime env) > real (le_value tsb)"
    using assms(11) by linarith
  show ?thesis
    using verify_challenge_run [OF assms(1-10)] s by simp
qed

theorem solution_checked_against_seed_witness:
  "verify_challenge test_env (test_verify_world 1005 [107])
     = handler test_env ([102] @ test_req_payload) ((test_verify_world 1005 [107])\<lparr>inp := []\<rparr>)"
  using solution_checked_against_seed [of "test_verify_world 1005 [107]" 60 4 test_tsb "replicate 32 7" "[102]"
      test_req_payload "[107]" "[]" test_env "replicate 32 8" 1]
  by (simp add: test_verify_facts test_verify_world_def test_env_def)

text \<open>
  C4 as stated fails: the solution \<open>[75]\<close> verifies against the seed the claim names, the
  10-byte challenge followed by the request (75 bytes), and CHALLENGE_VERIFY rejects it;
  the solution \<open>[107]\<close> verifies against the 42 bytes read followed by the request and not
  against the claim's seed, and the request goes to the handler.
\<close>

theorem solution_checked_against_seed_counterexample:
  "equihash_verify test_env 60 4 (take 10 (60 # 4 # test_tsb @ replicate 32 7) @ [102] @ test_req_payload) [75]
   \<and> verify_challenge test_env (test_verify_world 1005 [75])
       = (Inl Failed, (test_verify_world 1005 [75])\<lparr>inp := [], out := [fail_marker]\<rparr>)
   \<and> \<not> equihash_verify test_env 60 4 (take 10 (60 # 4 # test_tsb @ replicate 32 7) @ [102] @ test_req_payload) [107]
   \<and> verify_challenge test_env (test_verify_world 1005 [107])
       = handler test_env ([102] @ test_req_payload) ((test_verify_world 1005 [107])\<lparr>inp := []\<rparr>)"
  using test_verify_run [of "[75]" 1005] test_verify_run [of "[107]" 1005]
  by (simp add: test_verify_facts test_env_def)

end
